theory Spec2Isabelle
  imports Main "HOL-Library.Sublist"
begin

section \<open>Try-job integration of the Task Scheduler with Buildbucket\<close>

text \<open>
  A shallow embedding of the package \<^verbatim>\<open>tryjobs\<close> (the TryJobIntegrator).
  Jobs are records; the Go pointers to jobs become values that every function hands
  back after mutating them. The remote services (Buildbucket V1 and V2, Pub/Sub,
  Gerrit, the task configuration cache) answer through the fields of an environment
  record, one field per RPC; the job database and the job cache are part of an explicit
  state, together with the list of remote calls issued so far. Log lines and metrics
  are not modelled.
\<close>

subsection \<open>Errors and strings\<close>

text \<open>
  A Go \<^verbatim>\<open>error\<close> is a message, possibly wrapped with context by
  \<^verbatim>\<open>skerr.Wrapf\<close>; the nil error is \<open>None\<close> of \<open>error option\<close>.
  Call stacks attached by \<^verbatim>\<open>skerr\<close> are left out, so \<^verbatim>\<open>skerr.Wrap\<close>
  hands its argument back. Messages are built by concatenation: a \<^verbatim>\<open>%d\<close> is the
  decimal numeral, a \<^verbatim>\<open>%s\<close> and a \<^verbatim>\<open>%q\<close> are the string itself (the
  quoting of \<^verbatim>\<open>%q\<close> is left out), and the dump of a whole structure is left out.
  No property below depends on the text of a message, except through the two substrings
  that \<^verbatim>\<open>isBuildAlreadyStartedError\<close> and \<^verbatim>\<open>isBuildAlreadyFinishedError\<close>
  look for.
\<close>

datatype error = Errorf string | Wrapped error string

fun Error :: "error \<Rightarrow> string" where
  "Error (Errorf msg) = msg"
| "Error (Wrapped e ctx) = ctx @ '': '' @ Error e"

fun Unwrap :: "error \<Rightarrow> error" where
  "Unwrap (Errorf msg) = Errorf msg"
| "Unwrap (Wrapped e ctx) = Unwrap e"

definition Wrapf :: "error option \<Rightarrow> string \<Rightarrow> error option" where
  "Wrapf err ctx = (case err of None \<Rightarrow> None | Some e \<Rightarrow> Some (Wrapped e ctx))"

definition Wrap :: "error option \<Rightarrow> error option" where
  "Wrap err = err"

text \<open>\<^verbatim>\<open>strings.Contains\<close>: the second string occurs in the first as a contiguous run.\<close>

fun Contains :: "string \<Rightarrow> string \<Rightarrow> bool" where
  "Contains [] substr = (substr = [])"
| "Contains (c # cs) substr = (prefix substr (c # cs) \<or> Contains cs substr)"

text \<open>\<^verbatim>\<open>strconv.FormatInt(i, 10)\<close>.\<close>

function FormatNat :: "nat \<Rightarrow> string" where
  "FormatNat n =
     (if n < 10 then [''0123456789'' ! n]
      else FormatNat (n div 10) @ [''0123456789'' ! (n mod 10)])"
  by pat_completeness auto
termination
  by (relation "measure (\<lambda>n. n)") auto

declare FormatNat.simps [simp del]

definition FormatInt :: "int \<Rightarrow> string" where
  "FormatInt i = (if i < 0 then CHR ''-'' # FormatNat (nat (- i)) else FormatNat (nat i))"

text \<open>
  Modelled from the spec: \<^verbatim>\<open>util.Truncate\<close> is not among the sources; it bounds
  the length of a message ("a truncated error message (bounded length to respect downstream
  storage limits)"), replacing the tail of a message that is too long by an ellipsis.
\<close>

definition Truncate :: "string \<Rightarrow> nat \<Rightarrow> string" where
  "Truncate s n =
     (if length s > n then (if n > 3 then take (n - 3) s @ ''...'' else take n s) else s)"

subsection \<open>Constants\<close>

definition LEASE_BATCH_SIZE :: nat where "LEASE_BATCH_SIZE = 200"

text \<open>Durations and times are counted in nanoseconds, as \<^verbatim>\<open>time.Duration\<close> is.\<close>

definition Second :: int where "Second = 1000000000"
definition LEASE_DURATION :: int where "LEASE_DURATION = 3600 * Second"
definition LEASE_DURATION_INITIAL :: int where "LEASE_DURATION_INITIAL = 30 * 60 * Second"
definition CLEANUP_AGE_THRESHOLD :: int where "CLEANUP_AGE_THRESHOLD = 3 * 3600 * Second"
definition secondsToMicros :: int where "secondsToMicros = 1000000"
definition maxCancelReasonLen :: nat where "maxCancelReasonLen = 1024"

definition BUILDBUCKET_API_ERROR_REASON_COMPLETED :: string where
  "BUILDBUCKET_API_ERROR_REASON_COMPLETED = ''BUILD_IS_COMPLETED''"
definition BUILDBUCKET_API_ERROR_REASON_INVALID_INPUT :: string where
  "BUILDBUCKET_API_ERROR_REASON_INVALID_INPUT = ''INVALID_INPUT''"
definition BUILDBUCKET_API_ERROR_REASON_LEASE_EXPIRED :: string where
  "BUILDBUCKET_API_ERROR_REASON_LEASE_EXPIRED = ''LEASE_EXPIRED''"

definition buildAlreadyStartedErr :: string where
  "buildAlreadyStartedErr = ''has recorded another StartBuild with request id''"
definition buildAlreadyFinishedErr :: string where
  "buildAlreadyFinishedErr = ''cannot update an ended build''"
definition buildbucketProject :: string where
  "buildbucketProject = ''skia''"

definition isBuildAlreadyStartedError :: "error option \<Rightarrow> bool" where
  "isBuildAlreadyStartedError err =
     (case err of None \<Rightarrow> False | Some e \<Rightarrow> Contains (Error e) buildAlreadyStartedErr)"

definition isBuildAlreadyFinishedError :: "error option \<Rightarrow> bool" where
  "isBuildAlreadyFinishedError err =
     (case err of None \<Rightarrow> False | Some e \<Rightarrow> Contains (Error e) buildAlreadyFinishedErr)"

subsection \<open>Jobs\<close>

datatype JobStatus =
    JOB_STATUS_REQUESTED
  | JOB_STATUS_IN_PROGRESS
  | JOB_STATUS_SUCCESS
  | JOB_STATUS_FAILURE
  | JOB_STATUS_MISHAP
  | JOB_STATUS_CANCELED

text \<open>
  \<^verbatim>\<open>types.RepoState\<close> with its embedded \<^verbatim>\<open>types.Patch\<close>, and
  \<^verbatim>\<open>types.Job\<close> with the fields this package reads or writes. Build ids and
  lease keys are \<^verbatim>\<open>int64\<close> in the source; they are only compared, never computed
  with, so they are integers here. Times are nanoseconds since the Unix epoch.
\<close>

record RepoState =
  Server :: string
  Issue :: string
  PatchRepo :: string
  Patchset :: string
  Repo :: string
  Revision :: string

record Job =
  JobId :: string
  Name :: string
  BuildbucketBuildId :: int
  BuildbucketLeaseKey :: int
  BuildbucketPubSubTopic :: string
  BuildbucketToken :: string
  Status :: JobStatus
  StatusDetails :: string
  Requested :: int
  Created :: int
  Finished :: int
  RepoState :: RepoState
  Dependencies :: "(string \<times> string list) list"
  IsForce :: bool

text \<open>
  Modelled from the spec: \<^verbatim>\<open>Job.Done\<close> is not among the sources. "REQUESTED and
  IN_PROGRESS are non-terminal; all others are terminal."
\<close>

definition Done :: "Job \<Rightarrow> bool" where
  "Done j = (Status j \<noteq> JOB_STATUS_IN_PROGRESS \<and> Status j \<noteq> JOB_STATUS_REQUESTED)"

definition isBBv2 :: "Job \<Rightarrow> bool" where
  "isBBv2 j = (BuildbucketPubSubTopic j \<noteq> [])"

definition skipRepoState :: "RepoState \<Rightarrow> bool" where
  "skipRepoState rs = (if Issue rs = ''527502'' \<and> Patchset rs = ''1'' then True else False)"

subsection \<open>Messages of the remote build service\<close>

record LegacyApiErrorMessage =
  Message :: string
  Reason :: string

datatype BuildStatus =
    Status_SCHEDULED
  | Status_STARTED
  | Status_SUCCESS
  | Status_FAILURE
  | Status_INFRA_FAILURE
  | Status_CANCELED

record GerritChange =
  Host :: string
  Project :: string
  Change :: int
  ChangePatchset :: int

record BuilderID =
  BuilderProject :: string
  Bucket :: string
  Builder :: string

text \<open>
  A Buildbucket V2 build. \<open>Input\<close> and \<open>BuildBuilder\<close> are pointers in the source and
  may be nil (\<open>None\<close>); \<open>CreateTime\<close> is \<open>None\<close> when \<^verbatim>\<open>ptypes.Timestamp\<close>
  rejects it.
\<close>

record Build =
  BuildId :: int
  BuildStatus :: BuildStatus
  Input :: "GerritChange list option"
  BuildBuilder :: "BuilderID option"
  CreateTime :: "int option"

text \<open>The remote calls the integrator issues, with the arguments that identify them.\<close>

datatype call =
    HeartbeatBatch "(int \<times> int \<times> int) list"
  | Lease int int
  | Start int int
  | Succeed int int
  | Fail int string int
  | Cancel int string
  | GetBuild int
  | StartBuild int string string
  | UpdateBuild int JobStatus string string
  | CancelBuild int string
  | Search string int
  | Publish string int
  | GetIssueProperties int

subsection \<open>Environment and state\<close>

text \<open>
  The environment holds the configuration of the integrator, the clock, and the answer
  of every collaborator to every request. An RPC answers \<open>Inl err\<close> for a transport
  error. Helpers of other packages that are not among the sources
  (\<^verbatim>\<open>firestore.TS_RESOLUTION\<close>, \<^verbatim>\<open>RepoState.Valid\<close>,
  \<^verbatim>\<open>RepoState.IsTryJob\<close>, the id a new job gets in the database) are parameters.
\<close>

record env =
  now :: int
  TS_RESOLUTION :: int
  buildbucketBucket :: string
  projectRepoMapping :: "string \<Rightarrow> string option"
  rm :: "string \<Rightarrow> (string \<Rightarrow> string option) option"
  bb_HeartbeatBatch :: "(int \<times> int \<times> int) list \<Rightarrow> error + LegacyApiErrorMessage option list"
  bb_Lease :: "int \<Rightarrow> int \<Rightarrow> error + (int option \<times> LegacyApiErrorMessage option)"
  bb_Start :: "int \<Rightarrow> int \<Rightarrow> error + LegacyApiErrorMessage option"
  bb_Succeed :: "int \<Rightarrow> int \<Rightarrow> error + LegacyApiErrorMessage option"
  bb_Fail :: "int \<Rightarrow> string \<Rightarrow> int \<Rightarrow> error + LegacyApiErrorMessage option"
  bb_Cancel :: "int \<Rightarrow> string \<Rightarrow> error + LegacyApiErrorMessage option"
  bb2_GetBuild :: "int \<Rightarrow> error + Build"
  bb2_StartBuild :: "int \<Rightarrow> string \<Rightarrow> string \<Rightarrow> string \<times> error option"
  bb2_UpdateBuild :: "int \<Rightarrow> string \<Rightarrow> error option"
  bb2_CancelBuild :: "int \<Rightarrow> string \<Rightarrow> error option"
  bb2_Search :: "string \<Rightarrow> int \<Rightarrow> error + Build list"
  pubsub_Publish :: "string \<Rightarrow> int \<Rightarrow> error option"
  gerrit_GetIssueProperties :: "int \<Rightarrow> error + string"
  chr_GetOrCacheRepoState :: "RepoState \<Rightarrow> error option"
  taskCfgCache_Get ::
    "RepoState \<Rightarrow> error + (error + (string \<Rightarrow> (error + (string \<times> string list) list) option))"
  RepoState_Valid :: "RepoState \<Rightarrow> bool"
  RepoState_IsTryJob :: "RepoState \<Rightarrow> bool"
  newJobId :: "int \<Rightarrow> string"
  db_GetJobById_err :: "string \<Rightarrow> error option"
  db_SearchJobs_err :: "int \<Rightarrow> error option"
  db_Put_err :: "Job list \<Rightarrow> error option"
  db_Put_stored :: "Job list \<Rightarrow> nat"
  jCache_Update_err :: "error option"
  jCache_GetJobsByRepoState_err :: "string \<Rightarrow> error option"

record state =
  db :: "Job list"
  jCache :: "Job list"
  calls :: "call list"

definition rpc :: "call \<Rightarrow> state \<Rightarrow> state" where
  "rpc c s = s\<lparr>calls := calls s @ [c]\<rparr>"

subsection \<open>The job database and the job cache\<close>

text \<open>
  Modelled from the spec: the job database and the job cache are not among the sources.
  The database offers "point lookups, range queries, atomic batch writes"; the cache is an
  "in-memory mirror with update() (resync from DB), getAll(), add(jobs),
  getByRepoState(name, repoState)"; a batch write is "atomic per job, not cross-job". A
  write replaces the stored job of the same id, or adds the job. A failed write of one job
  stores nothing; a failed write of a batch may have stored a part of it, and the
  environment says how many jobs of the batch, from its start, it has stored. A lookup of an
  id that is not stored gives no job and no error.
\<close>

definition upsert :: "Job \<Rightarrow> Job list \<Rightarrow> Job list" where
  "upsert j js =
     (if list_ex (\<lambda>j'. JobId j' = JobId j) js
      then map (\<lambda>j'. if JobId j' = JobId j then j else j') js
      else js @ [j])"

definition PutJobsInChunks :: "env \<Rightarrow> Job list \<Rightarrow> state \<Rightarrow> error option \<times> state" where
  "PutJobsInChunks e jobs s =
     (case db_Put_err e jobs of
        Some err \<Rightarrow> (Some err, s\<lparr>db := fold upsert (take (db_Put_stored e jobs) jobs) (db s)\<rparr>)
      | None \<Rightarrow> (None, s\<lparr>db := fold upsert jobs (db s)\<rparr>))"

definition PutJob :: "env \<Rightarrow> Job \<Rightarrow> state \<Rightarrow> error option \<times> Job \<times> state" where
  "PutJob e j s =
     (case db_Put_err e [j] of
        Some err \<Rightarrow> (Some err, j, s)
      | None \<Rightarrow>
          (let j' = (if JobId j = [] then j\<lparr>JobId := newJobId e (BuildbucketBuildId j)\<rparr> else j)
           in (None, j', s\<lparr>db := upsert j' (db s)\<rparr>)))"

definition GetJobById :: "env \<Rightarrow> string \<Rightarrow> state \<Rightarrow> error + Job option" where
  "GetJobById e jid s =
     (case db_GetJobById_err e jid of
        Some err \<Rightarrow> Inl err
      | None \<Rightarrow> Inr (find (\<lambda>j. JobId j = jid) (db s)))"

definition SearchJobs :: "env \<Rightarrow> int \<Rightarrow> int \<Rightarrow> int \<Rightarrow> state \<Rightarrow> error + Job list" where
  "SearchJobs e bid tstart tend s =
     (case db_SearchJobs_err e bid of
        Some err \<Rightarrow> Inl err
      | None \<Rightarrow>
          Inr (filter (\<lambda>j. BuildbucketBuildId j = bid \<and> tstart \<le> Created j \<and> Created j < tend)
                 (db s)))"

definition AddJobs :: "Job list \<Rightarrow> state \<Rightarrow> state" where
  "AddJobs jobs s = s\<lparr>jCache := fold upsert jobs (jCache s)\<rparr>"

definition jCache_Update :: "env \<Rightarrow> state \<Rightarrow> error option \<times> state" where
  "jCache_Update e s =
     (case jCache_Update_err e of
        Some err \<Rightarrow> (Some err, s)
      | None \<Rightarrow> (None, s\<lparr>jCache := db s\<rparr>))"

definition GetAllCachedJobs :: "state \<Rightarrow> Job list" where
  "GetAllCachedJobs s = jCache s"

definition GetJobsByRepoState :: "env \<Rightarrow> string \<Rightarrow> RepoState \<Rightarrow> state \<Rightarrow> error + Job list" where
  "GetJobsByRepoState e name rs s =
     (case jCache_GetJobsByRepoState_err e name of
        Some err \<Rightarrow> Inl err
      | None \<Rightarrow> Inr (filter (\<lambda>j. Name j = name \<and> RepoState j = rs) (jCache s)))"

subsection \<open>Active try jobs\<close>

definition getActiveTryJobs :: "env \<Rightarrow> state \<Rightarrow> (error + Job list) \<times> state" where
  "getActiveTryJobs e s =
     (case jCache_Update e s of
        (Some err, s') \<Rightarrow> (Inl err, s')
      | (None, s') \<Rightarrow>
          (Inr (filter (\<lambda>job. (BuildbucketLeaseKey job \<noteq> 0 \<or> BuildbucketToken job \<noteq> [])
                              \<and> Status job \<noteq> JOB_STATUS_REQUESTED)
                  (GetAllCachedJobs s')), s'))"

subsection \<open>Canceling and leasing\<close>

text \<open>
  \<^verbatim>\<open>localCancelJobs\<close> mutates the jobs it is given before it writes them, so the
  jobs are handed back also when the write fails.
\<close>

definition cancelFields :: "env \<Rightarrow> Job \<Rightarrow> string \<Rightarrow> Job" where
  "cancelFields e j reason =
     j\<lparr>BuildbucketLeaseKey := 0, Status := JOB_STATUS_CANCELED, StatusDetails := reason,
       Finished := now e\<rparr>"

definition localCancelJobs ::
  "env \<Rightarrow> Job list \<Rightarrow> string list \<Rightarrow> state \<Rightarrow> error option \<times> Job list \<times> state" where
  "localCancelJobs e jobs reasons s =
     (if length jobs \<noteq> length reasons
      then (Some (Errorf ''expected jobs and reasons to have the same length''), jobs, s)
      else
        (let jobs' = map (\<lambda>(j, reason). cancelFields e j reason) (zip jobs reasons)
         in case PutJobsInChunks e jobs' s of
              (Some err, s') \<Rightarrow> (Some err, jobs', s')
            | (None, s') \<Rightarrow> (None, jobs', AddJobs jobs' s')))"

definition remoteCancelV1Build :: "env \<Rightarrow> int \<Rightarrow> string \<Rightarrow> state \<Rightarrow> error option \<times> state" where
  "remoteCancelV1Build e buildId msg s =
     (let message = Truncate msg maxCancelReasonLen;
          s' = rpc (Cancel buildId message) s
      in case bb_Cancel e buildId message of
           Inl err \<Rightarrow> (Some err, s')
         | Inr (Some respError) \<Rightarrow> (Some (Errorf (Message respError)), s')
         | Inr None \<Rightarrow> (None, s'))"

definition tryLeaseV1Build ::
  "env \<Rightarrow> int \<Rightarrow> state \<Rightarrow> (int \<times> LegacyApiErrorMessage option \<times> error option) \<times> state" where
  "tryLeaseV1Build e bid s =
     (let expiration = ((now e + LEASE_DURATION_INITIAL) div Second) * secondsToMicros;
          s' = rpc (Lease bid expiration) s
      in case bb_Lease e bid expiration of
           Inl err \<Rightarrow>
             ((0, None, Wrapf (Some err)
                 (''failed request to lease buildbucket build '' @ FormatInt bid)), s')
         | Inr (respBuild, respError) \<Rightarrow>
             ((case respBuild of None \<Rightarrow> 0 | Some leaseKey \<Rightarrow> leaseKey, respError, None), s'))"

subsection \<open>Notifications over Pub/Sub and the V2 API\<close>

text \<open>
  \<^verbatim>\<open>sendPubSub\<close> publishes the update of one job. The encoding of the message and
  the split of the topic into project and topic name are not modelled: the call is
  recorded with the topic as the job holds it.
\<close>

definition jobRef :: "Job \<Rightarrow> string" where
  "jobRef j = JobId j @ '' (build '' @ FormatInt (BuildbucketBuildId j) @ '')''"

definition sendPubSub :: "env \<Rightarrow> Job \<Rightarrow> state \<Rightarrow> error option \<times> state" where
  "sendPubSub e job s =
     (Wrapf (pubsub_Publish e (BuildbucketPubSubTopic job) (BuildbucketBuildId job))
        (''failed to send pubsub update for job '' @ jobRef job),
      rpc (Publish (BuildbucketPubSubTopic job) (BuildbucketBuildId job)) s)"

text \<open>The loop of \<^verbatim>\<open>sendPubsubUpdates\<close> over the jobs, collecting the errors.\<close>

fun sendPubsubLoop :: "env \<Rightarrow> Job list \<Rightarrow> state \<Rightarrow> error list \<times> state" where
  "sendPubsubLoop e [] s = ([], s)"
| "sendPubsubLoop e (job # jobs) s =
     (case sendPubSub e job s of
        (err, s1) \<Rightarrow>
          (case sendPubsubLoop e jobs s1 of
             (errs, s2) \<Rightarrow> ((case err of None \<Rightarrow> [] | Some x \<Rightarrow> [x]) @ errs, s2)))"

fun join :: "string list \<Rightarrow> string \<Rightarrow> string" where
  "join [] sep = []"
| "join [x] sep = x"
| "join (x # y # ys) sep = x @ sep @ join (y # ys) sep"

definition showErrors :: "error list \<Rightarrow> string" where
  "showErrors errs = ''['' @ join (map Error errs) '' '' @ '']''"

text \<open>
  The source publishes the updates from one goroutine per job and joins them; the model
  publishes them in the order of the list.
\<close>

definition sendPubsubUpdates :: "env \<Rightarrow> Job list \<Rightarrow> state \<Rightarrow> error option \<times> state" where
  "sendPubsubUpdates e jobs s =
     (case sendPubsubLoop e jobs s of
        (errs, s') \<Rightarrow> (if errs = [] then None else Some (Errorf (showErrors errs)), s'))"

definition updateBuild :: "env \<Rightarrow> Job \<Rightarrow> state \<Rightarrow> error option \<times> state" where
  "updateBuild e j s =
     (let s1 = rpc (UpdateBuild (BuildbucketBuildId j) (Status j) (StatusDetails j)
                      (BuildbucketToken j)) s
      in case bb2_UpdateBuild e (BuildbucketBuildId j) (BuildbucketToken j) of
           Some err \<Rightarrow>
             (Some (Wrapped err (''failed to UpdateBuild '' @ FormatInt (BuildbucketBuildId j)
                                  @ '' for job '' @ JobId j)), s1)
         | None \<Rightarrow> (case sendPubSub e j s1 of (err, s2) \<Rightarrow> (Wrap err, s2)))"

definition cancelBuild :: "env \<Rightarrow> Job \<Rightarrow> string \<Rightarrow> state \<Rightarrow> error option \<times> state" where
  "cancelBuild e j reason s =
     (let s1 = rpc (CancelBuild (BuildbucketBuildId j) reason) s
      in case bb2_CancelBuild e (BuildbucketBuildId j) reason of
           Some err \<Rightarrow>
             (Some (Wrapped err (''failed to cancel build '' @ FormatInt (BuildbucketBuildId j)
                                  @ '' for job '' @ JobId j)), s1)
         | None \<Rightarrow> (case sendPubSub e j s1 of (err, s2) \<Rightarrow> (Wrap err, s2)))"

subsection \<open>Terminal notifications\<close>

definition buildSucceededV1 :: "env \<Rightarrow> Job \<Rightarrow> state \<Rightarrow> error option \<times> state" where
  "buildSucceededV1 e j s =
     (let s' = rpc (Succeed (BuildbucketBuildId j) (BuildbucketLeaseKey j)) s
      in case bb_Succeed e (BuildbucketBuildId j) (BuildbucketLeaseKey j) of
           Inl err \<Rightarrow> (Some err, s')
         | Inr (Some respError) \<Rightarrow>
             (if Reason respError = BUILDBUCKET_API_ERROR_REASON_COMPLETED then (None, s')
              else (Some (Errorf (Message respError)), s'))
         | Inr None \<Rightarrow> (None, s'))"

definition buildFailed :: "env \<Rightarrow> Job \<Rightarrow> state \<Rightarrow> error option \<times> state" where
  "buildFailed e j s =
     (let failureReason =
            (if Status j = JOB_STATUS_MISHAP then ''INFRA_FAILURE'' else ''BUILD_FAILURE'');
          s' = rpc (Fail (BuildbucketBuildId j) failureReason (BuildbucketLeaseKey j)) s
      in case bb_Fail e (BuildbucketBuildId j) failureReason (BuildbucketLeaseKey j) of
           Inl err \<Rightarrow> (Some err, s')
         | Inr (Some respError) \<Rightarrow>
             (if Reason respError = BUILDBUCKET_API_ERROR_REASON_COMPLETED then (None, s')
              else (Some (Errorf (Message respError)), s'))
         | Inr None \<Rightarrow> (None, s'))"

definition jobFinished :: "env \<Rightarrow> Job \<Rightarrow> state \<Rightarrow> error option \<times> state" where
  "jobFinished e j s =
     (if \<not> Done j then (Some (Errorf ''JobFinished called for unfinished Job!''), s)
      else if isBBv2 j then
        (if Status j = JOB_STATUS_CANCELED then
           (let reason = (if StatusDetails j = [] then ''Underlying job was canceled.''
                          else StatusDetails j)
            in case cancelBuild e j reason s of (err, s') \<Rightarrow> (Wrap err, s'))
         else
           (case updateBuild e j s of
              (Some err, s') \<Rightarrow>
                (if isBuildAlreadyFinishedError (Some err) then (None, s')
                 else (Wrap (Some err), s'))
            | (None, s') \<Rightarrow> (None, s')))
      else if Status j = JOB_STATUS_SUCCESS then
        (case buildSucceededV1 e j s of (err, s') \<Rightarrow> (Wrap err, s'))
      else
        (case buildFailed e j s of (err, s') \<Rightarrow> (Wrap err, s')))"

subsection \<open>Heartbeats\<close>

text \<open>
  One pass over the results of a heartbeat batch. The source collects pointers to the
  jobs to re-lease and to cancel; the model collects their positions in the batch.
\<close>

fun scanResults ::
  "nat \<Rightarrow> LegacyApiErrorMessage option list \<Rightarrow> nat list \<times> nat list \<times> string list" where
  "scanResults i [] = ([], [], [])"
| "scanResults i (result # results) =
     (case scanResults (Suc i) results of
        (retryLeaseJobs, cancelJobs, cancelReasons) \<Rightarrow>
          (case result of
             None \<Rightarrow> (retryLeaseJobs, cancelJobs, cancelReasons)
           | Some resultError \<Rightarrow>
               (if Reason resultError = BUILDBUCKET_API_ERROR_REASON_COMPLETED
                then (retryLeaseJobs, cancelJobs, cancelReasons)
                else if Reason resultError = BUILDBUCKET_API_ERROR_REASON_LEASE_EXPIRED
                then (i # retryLeaseJobs, cancelJobs, cancelReasons)
                else (retryLeaseJobs, i # cancelJobs,
                      (''Buildbucket rejected heartbeat with: '' @ Reason resultError)
                        # cancelReasons))))"

text \<open>
  The re-lease loop. The condition of the branch that cancels is the source's:
  \<^verbatim>\<open>err != nil && bbError != nil\<close>.
\<close>

fun retryLeases ::
  "env \<Rightarrow> nat list \<Rightarrow> Job list \<Rightarrow> nat list \<times> string list \<times> int list \<Rightarrow> state
     \<Rightarrow> Job list \<times> (nat list \<times> string list \<times> int list) \<times> state" where
  "retryLeases e [] jobs acc s = (jobs, acc, s)"
| "retryLeases e (i # rest) jobs (cancelJobs, cancelReasons, cancelBuilds) s =
     (let job = jobs ! i
      in case tryLeaseV1Build e (BuildbucketBuildId job) s of
           ((leaseKey, bbError, err), s') \<Rightarrow>
             (if err \<noteq> None \<and> bbError \<noteq> None then
                (let errMsg = (case err of
                                 Some x \<Rightarrow> Error x
                               | None \<Rightarrow> (case bbError of Some b \<Rightarrow> Message b | None \<Rightarrow> []))
                 in retryLeases e rest jobs
                      (cancelJobs @ [i],
                       cancelReasons
                         @ [''Buildbucket rejected heartbeat and failed to re-lease with: ''
                              @ errMsg],
                       cancelBuilds @ [BuildbucketBuildId job]) s')
              else
                retryLeases e rest (jobs[i := job\<lparr>BuildbucketLeaseKey := leaseKey\<rparr>])
                  (cancelJobs, cancelReasons, cancelBuilds) s'))"

text \<open>
  The last loop of \<^verbatim>\<open>send\<close>: the remote cancel of every build whose re-lease
  failed, collecting the errors.
\<close>

fun remoteCancelLoop :: "env \<Rightarrow> int list \<Rightarrow> state \<Rightarrow> error list \<times> state" where
  "remoteCancelLoop e [] s = ([], s)"
| "remoteCancelLoop e (bid # ids) s =
     (case remoteCancelV1Build e bid ''failed to renew lease'' s of
        (err, s1) \<Rightarrow>
          (case remoteCancelLoop e ids s1 of
             (errs, s2) \<Rightarrow>
               ((case err of
                   None \<Rightarrow> []
                 | Some x \<Rightarrow> [Wrapped x (''failed to cancel build '' @ FormatInt bid)]) @ errs,
                s2)))"

text \<open>
  \<^verbatim>\<open>localCancelJobs\<close> mutates the jobs of the batch through the pointers collected
  for it; here the jobs it hands back are put at their positions in the batch.
\<close>

definition writeBack :: "nat list \<Rightarrow> Job list \<Rightarrow> Job list \<Rightarrow> Job list" where
  "writeBack idxs canceled jobs = fold (\<lambda>(i, j) js. js[i := j]) (zip idxs canceled) jobs"

text \<open>
  The closure \<^verbatim>\<open>send\<close> of \<^verbatim>\<open>sendHeartbeats\<close>: one batch. It hands back the jobs
  of the batch as it leaves them, the errors it appended and the state.
\<close>

definition send ::
  "env \<Rightarrow> int \<Rightarrow> Job list \<Rightarrow> state \<Rightarrow> Job list \<times> error list \<times> state" where
  "send e expiration jobs s =
     (let heartbeats =
            map (\<lambda>j. (BuildbucketBuildId j, BuildbucketLeaseKey j, expiration)) jobs;
          s0 = rpc (HeartbeatBatch heartbeats) s
      in case bb_HeartbeatBatch e heartbeats of
           Inl err \<Rightarrow> (jobs, [Wrapped err ''failed to send heartbeat request''], s0)
         | Inr results \<Rightarrow>
             (if length results \<noteq> length jobs then
                (jobs,
                 [Errorf (''Heartbeat result has incorrect number of jobs (''
                          @ FormatInt (int (length results)) @ '' vs ''
                          @ FormatInt (int (length jobs)) @ '')'')],
                 s0)
              else
                (case scanResults 0 results of
                   (retryLeaseJobs, cancelJobs0, cancelReasons0) \<Rightarrow>
                     (case retryLeases e retryLeaseJobs jobs (cancelJobs0, cancelReasons0, []) s0 of
                        (jobs1, (cancelJobs, cancelReasons, cancelBuilds), s1) \<Rightarrow>
                          (case (if cancelJobs \<noteq> [] then
                                   (case localCancelJobs e (map (\<lambda>i. jobs1 ! i) cancelJobs)
                                           cancelReasons s1 of
                                      (err, canceled, s2) \<Rightarrow>
                                        (writeBack cancelJobs canceled jobs1,
                                         (case err of None \<Rightarrow> [] | Some x \<Rightarrow> [x]), s2))
                                 else (jobs1, [], s1)) of
                             (jobs2, errs2, s2) \<Rightarrow>
                               (case remoteCancelLoop e cancelBuilds s2 of
                                  (errs3, s3) \<Rightarrow> (jobs2, errs2 @ errs3, s3)))))))"

function sendBatches ::
  "env \<Rightarrow> int \<Rightarrow> Job list \<Rightarrow> state \<Rightarrow> Job list \<times> error list \<times> state" where
  "sendBatches e expiration jobs s =
     (if jobs = [] then ([], [], s)
      else
        (let j = (if LEASE_BATCH_SIZE > length jobs then length jobs else LEASE_BATCH_SIZE)
         in case send e expiration (take j jobs) s of
              (batch', errs1, s1) \<Rightarrow>
                (case sendBatches e expiration (drop j jobs) s1 of
                   (rest', errs2, s2) \<Rightarrow> (batch' @ rest', errs1 @ errs2, s2))))"
  by pat_completeness auto
termination
  by (relation "measure (\<lambda>(e, expiration, jobs, s). length jobs)")
     (auto simp: LEASE_BATCH_SIZE_def)

declare sendBatches.simps [simp del]

text \<open>
  \<^verbatim>\<open>sendHeartbeats\<close> sorts the jobs by build id first (\<^verbatim>\<open>sort.Sort\<close>; the model
  keeps jobs of equal build id in their order) and hands back the jobs as it leaves them.
\<close>

definition sendHeartbeats :: "env \<Rightarrow> Job list \<Rightarrow> state \<Rightarrow> error option \<times> Job list \<times> state" where
  "sendHeartbeats e jobs s =
     (let sorted = sort_key BuildbucketBuildId jobs;
          expiration = ((now e + LEASE_DURATION) div Second) * secondsToMicros
      in case sendBatches e expiration sorted s of
           (jobs', errs, s') \<Rightarrow>
             (if errs \<noteq> []
              then Some (Errorf (''got errors sending heartbeats: '' @ showErrors errs))
              else None,
              jobs', s'))"

subsection \<open>The completion reconciler\<close>

text \<open>
  The loop of \<^verbatim>\<open>updateJobs\<close> over the finished jobs. It hands back the errors, the
  list \<^verbatim>\<open>insert\<close> of the jobs to write, and every finished job as the loop leaves it.
\<close>

fun finishJobs ::
  "env \<Rightarrow> Job list \<Rightarrow> state \<Rightarrow> error list \<times> Job list \<times> Job list \<times> state" where
  "finishJobs e [] s = ([], [], [], s)"
| "finishJobs e (j # finished) s =
     (case jobFinished e j s of
        (Some err, s1) \<Rightarrow>
          (case finishJobs e finished s1 of
             (errs, insertJobs, jobs', s2) \<Rightarrow>
               (Wrapped err (''failed to send jobFinished notification for job '' @ jobRef j)
                  # errs,
                insertJobs, j # jobs', s2))
      | (None, s1) \<Rightarrow>
          (let j' = j\<lparr>BuildbucketLeaseKey := 0, BuildbucketToken := []\<rparr>
           in case finishJobs e finished s1 of
                (errs, insertJobs, jobs', s2) \<Rightarrow> (errs, j' # insertJobs, j' # jobs', s2)))"

text \<open>
  The end of \<^verbatim>\<open>updateJobs\<close>, from "Send updates for finished Jobs" to the update
  of the cache: the loop above, the write of the jobs it collected, and their addition to
  the cache. The cache is updated also when the write has failed, as in the source.
\<close>

definition reconcileFinished ::
  "env \<Rightarrow> Job list \<Rightarrow> state \<Rightarrow> error list \<times> Job list \<times> state" where
  "reconcileFinished e finished s =
     (case finishJobs e finished s of
        (errs, insertJobs, jobs', s3) \<Rightarrow>
          (case PutJobsInChunks e insertJobs s3 of
             (putErr, s4) \<Rightarrow>
               (errs @ (case putErr of None \<Rightarrow> [] | Some x \<Rightarrow> [x]), jobs',
                AddJobs insertJobs s4)))"

text \<open>
  \<^verbatim>\<open>updateJobs\<close>. The source sends the heartbeats and the Pub/Sub updates from two
  goroutines while it notifies for the finished jobs, and waits for both; the three work
  on disjoint jobs, and the model runs them one after the other.
\<close>

definition updateJobs :: "env \<Rightarrow> state \<Rightarrow> error option \<times> state" where
  "updateJobs e s =
     (case getActiveTryJobs e s of
        (Inl err, s0) \<Rightarrow> (Some err, s0)
      | (Inr jobs, s0) \<Rightarrow>
          (let finished = filter Done jobs;
               unfinishedV2 = filter (\<lambda>j. \<not> Done j \<and> isBBv2 j) jobs;
               unfinishedV1 = filter (\<lambda>j. \<not> Done j \<and> \<not> isBBv2 j) jobs
           in case sendHeartbeats e unfinishedV1 s0 of
                (heartbeatErr, _, s1) \<Rightarrow>
                  (case sendPubsubUpdates e unfinishedV2 s1 of
                     (pubsubErr, s2) \<Rightarrow>
                       (case reconcileFinished e finished s2 of
                          (errs, _, s3) \<Rightarrow>
                            (let errs' = errs
                                   @ (case heartbeatErr of None \<Rightarrow> [] | Some x \<Rightarrow> [x])
                                   @ (case pubsubErr of None \<Rightarrow> [] | Some x \<Rightarrow> [x])
                             in (if errs' \<noteq> []
                                 then Some (Errorf (''Failed to update jobs; got errors: ''
                                                    @ showErrors errs'))
                                 else None,
                                 s3))))))"

subsection \<open>Starting a job\<close>

text \<open>
  A function of the source that can dereference a nil pointer has an outcome: it returns,
  or the goroutine panics.
\<close>

datatype 'a outcome = Returns 'a | Panics

text \<open>\<^verbatim>\<open>strconv.ParseInt(s, 10, 64)\<close>; \<open>None\<close> is its error.\<close>

definition digitVal :: "char \<Rightarrow> nat option" where
  "digitVal c =
     map_of [(CHR ''0'', 0), (CHR ''1'', 1), (CHR ''2'', 2), (CHR ''3'', 3), (CHR ''4'', 4),
             (CHR ''5'', 5), (CHR ''6'', 6), (CHR ''7'', 7), (CHR ''8'', 8), (CHR ''9'', 9)] c"

fun parseDigits :: "string \<Rightarrow> nat \<Rightarrow> nat option" where
  "parseDigits [] acc = Some acc"
| "parseDigits (c # cs) acc =
     (case digitVal c of None \<Rightarrow> None | Some d \<Rightarrow> parseDigits cs (10 * acc + d))"

definition ParseInt :: "string \<Rightarrow> int option" where
  "ParseInt str =
     (case str of
        [] \<Rightarrow> None
      | c # cs \<Rightarrow>
          (let neg = (c = CHR ''-'');
               ds = (if c = CHR ''-'' \<or> c = CHR ''+'' then cs else str)
           in if ds = [] then None
              else (case parseDigits ds 0 of
                      None \<Rightarrow> None
                    | Some n \<Rightarrow>
                        (let v = (if neg then - int n else int n)
                         in if - (2 ^ 63) \<le> v \<and> v < 2 ^ 63 then Some v else None))))"

definition getRevision ::
  "env \<Rightarrow> (string \<Rightarrow> string option) \<Rightarrow> string \<Rightarrow> state \<Rightarrow> (error + string) \<times> state" where
  "getRevision e repo issue s =
     (case ParseInt issue of
        None \<Rightarrow> (Inl (Wrapped (Errorf ''invalid syntax'') ''failed to parse issue number''), s)
      | Some issueNum \<Rightarrow>
          (let s' = rpc (GetIssueProperties issueNum) s
           in case gerrit_GetIssueProperties e issueNum of
                Inl err \<Rightarrow> (Inl (Wrapped err ''failed to get ChangeInfo''), s')
              | Inr branch \<Rightarrow>
                  (case repo branch of
                     None \<Rightarrow> (Inl (Errorf (''Unknown branch '' @ branch)), s')
                   | Some hash \<Rightarrow> (Inr hash, s'))))"

definition showRepoState :: "RepoState \<Rightarrow> string" where
  "showRepoState rs =
     ''RepoState { Repo: '' @ Repo rs @ '', Revision: '' @ Revision rs
       @ '', Patch: { Server: '' @ Server rs @ '', Issue: '' @ Issue rs
       @ '', PatchRepo: '' @ PatchRepo rs @ '', Patchset: '' @ Patchset rs @ ''} }''"

text \<open>
  The closure \<^verbatim>\<open>startJobHelper\<close>. It mutates the job as it goes, so the job is
  handed back with the error.
\<close>

definition startJobHelper :: "env \<Rightarrow> Job \<Rightarrow> state \<Rightarrow> error option \<times> Job \<times> state" where
  "startJobHelper e job s =
     (case rm e (Repo (RepoState job)) of
        None \<Rightarrow>
          (Some (Wrapped (Errorf (''unknown repo '' @ Repo (RepoState job)))
                   (''unable to find repo '' @ Repo (RepoState job))), job, s)
      | Some repoGraph \<Rightarrow>
          (case (if Revision (RepoState job) = [] then
                   (case getRevision e repoGraph (Issue (RepoState job)) s of
                      (Inl err, s') \<Rightarrow>
                        (Inl (Wrapped err (''failed to find base revision for issue ''
                               @ Issue (RepoState job) @ '' in '' @ Repo (RepoState job))), s')
                    | (Inr revision, s') \<Rightarrow> (Inr revision, s'))
                 else
                   (case repoGraph (Revision (RepoState job)) of
                      None \<Rightarrow> (Inl (Errorf (''Unknown revision '' @ Revision (RepoState job))), s)
                    | Some hash \<Rightarrow> (Inr hash, s))) of
             (Inl err, s1) \<Rightarrow> (Some err, job, s1)
           | (Inr revision, s1) \<Rightarrow>
               (let job1 = job\<lparr>RepoState := (RepoState job)\<lparr>Revision := revision\<rparr>\<rparr>;
                    rs = RepoState job1
                in if \<not> RepoState_Valid e rs \<or> \<not> RepoState_IsTryJob e rs \<or> skipRepoState rs
                   then (Some (Errorf (''invalid RepoState: '' @ showRepoState rs)), job1, s1)
                   else
                     (case chr_GetOrCacheRepoState e rs of
                        Some err \<Rightarrow> (Some (Wrapped err ''failed to obtain JobSpec''), job1, s1)
                      | None \<Rightarrow>
                          (case taskCfgCache_Get e rs of
                             Inl err \<Rightarrow> (Some err, job1, s1)
                           | Inr (Inl cachedErr) \<Rightarrow> (Some cachedErr, job1, s1)
                           | Inr (Inr cfgJobs) \<Rightarrow>
                               (case cfgJobs (Name job1) of
                                  None \<Rightarrow>
                                    (Some (Errorf (''no such job: '' @ Name job1)), job1, s1)
                                | Some (Inl err) \<Rightarrow> (Some err, job1, s1)
                                | Some (Inr deps) \<Rightarrow>
                                    (let job2 = job1\<lparr>Dependencies := deps\<rparr>
                                     in case GetJobsByRepoState e (Name job2) rs s1 of
                                          Inl err \<Rightarrow> (Some err, job2, s1)
                                        | Inr prevJobs \<Rightarrow>
                                            (None,
                                             if prevJobs \<noteq> [] then job2\<lparr>IsForce := True\<rparr>
                                             else job2,
                                             s1))))))))"

definition jobStarted ::
  "env \<Rightarrow> Job \<Rightarrow> state \<Rightarrow> (string \<times> LegacyApiErrorMessage option \<times> error option) \<times> state" where
  "jobStarted e j s =
     (if isBBv2 j then
        (case bb2_StartBuild e (BuildbucketBuildId j) (JobId j) (BuildbucketToken j) of
           (updateToken, err) \<Rightarrow>
             ((updateToken, None, Wrap err),
              rpc (StartBuild (BuildbucketBuildId j) (JobId j) (BuildbucketToken j)) s))
      else
        (let s' = rpc (Start (BuildbucketBuildId j) (BuildbucketLeaseKey j)) s
         in case bb_Start e (BuildbucketBuildId j) (BuildbucketLeaseKey j) of
              Inl err \<Rightarrow> (([], None, Wrap (Some err)), s')
            | Inr respError \<Rightarrow> (([], respError, None), s')))"

text \<open>The end of \<^verbatim>\<open>startJob\<close>: the job is written to the database and the cache.\<close>

definition insertStarted :: "env \<Rightarrow> Job \<Rightarrow> state \<Rightarrow> error option outcome \<times> Job \<times> state" where
  "insertStarted e job s =
     (case PutJob e job s of
        (Some err, job', s') \<Rightarrow>
          (Returns (Some (Wrapped err (''failed to insert Job '' @ jobRef job @ '' into the DB''))),
           job', s')
      | (None, job', s') \<Rightarrow> (Returns None, job', AddJobs [job'] s'))"

text \<open>
  \<^verbatim>\<open>startJob\<close>. Both returns of the branch that cancels the job read
  \<^verbatim>\<open>bbError.Message\<close>; \<^verbatim>\<open>bbError\<close> is a pointer, and reading through it
  when it is nil panics. The read comes after \<^verbatim>\<open>localCancelJobs\<close> has run.
\<close>

definition startJob :: "env \<Rightarrow> Job \<Rightarrow> state \<Rightarrow> error option outcome \<times> Job \<times> state" where
  "startJob e job s =
     (case GetJobById e (JobId job) s of
        Inl err \<Rightarrow> (Returns (Some (Wrapped err ''failed loading job from DB'')), job, s)
      | Inr None \<Rightarrow> (Panics, job, s)
      | Inr (Some updatedJob) \<Rightarrow>
          (if Status updatedJob \<noteq> JOB_STATUS_REQUESTED then (Returns None, job, s)
           else
             (case startJobHelper e job s of
                (Some err, job1, s1) \<Rightarrow>
                  insertStarted e
                    (job1\<lparr>Status := JOB_STATUS_MISHAP,
                          StatusDetails :=
                            Truncate (''Failed to start Job: '' @ Error (Unwrap err)) 1024\<rparr>) s1
              | (None, job1, s1) \<Rightarrow>
                  (let job2 = job1\<lparr>Status := JOB_STATUS_IN_PROGRESS\<rparr>
                   in case jobStarted e job2 s1 of
                        ((bbToken, bbError, err), s2) \<Rightarrow>
                          (if isBuildAlreadyStartedError err \<or> bbError \<noteq> None then
                             (let cancelReason =
                                    (if isBuildAlreadyStartedError err then
                                       ''StartBuild has already been called for this Job, but the Job was not correctly updated and cannot continue.''
                                     else
                                       (case bbError of
                                          Some b \<Rightarrow> ''Buildbucket rejected Start with: '' @ Reason b
                                        | None \<Rightarrow> []))
                              in case localCancelJobs e [job2] [cancelReason] s2 of
                                   (cancelErr, canceled, s3) \<Rightarrow>
                                     (case bbError of
                                        None \<Rightarrow> (Panics, hd canceled, s3)
                                      | Some b \<Rightarrow>
                                          (case cancelErr of
                                             Some ce \<Rightarrow>
                                               (Returns (Some (Wrapped ce
                                                  (''failed to start job '' @ jobRef job2
                                                   @ '' with '' @ Message b
                                                   @ '' and failed to cancel job''))),
                                                hd canceled, s3)
                                           | None \<Rightarrow>
                                               (Returns (Some (Errorf
                                                  (''failed to start job '' @ jobRef job2
                                                   @ '' with '' @ Message b))),
                                                hd canceled, s3))))
                           else if err \<noteq> None then
                             (Returns (Wrapf err
                                (''failed to send job-started notification for job ''
                                 @ jobRef job2)), job2, s2)
                           else if bbToken \<noteq> [] then
                             insertStarted e (job2\<lparr>BuildbucketToken := bbToken\<rparr>) s2
                           else insertStarted e job2 s2)))))"

subsection \<open>Intake\<close>

definition findJobForBuild :: "env \<Rightarrow> int \<Rightarrow> state \<Rightarrow> error + Job option" where
  "findJobForBuild e bid s =
     (let tend = now e;
          tstart = tend - 4 * 24 * 3600 * Second
      in case SearchJobs e bid tstart tend s of
           Inl err \<Rightarrow>
             Inl (Wrapped err (''failed searching for existing Jobs for build '' @ FormatInt bid))
         | Inr foundJobs \<Rightarrow> Inr (case foundJobs of [] \<Rightarrow> None | j # _ \<Rightarrow> Some j))"

text \<open>
  Modelled from the spec: \<^verbatim>\<open>firestore.FixTimestamp\<close> is not among the sources. It
  rounds a time down to the resolution the database stores, \<^verbatim>\<open>firestore.TS_RESOLUTION\<close>
  (the "timestamp-resolution unit"), as \<^verbatim>\<open>time.Truncate\<close> does: a resolution that is
  not positive leaves the time as it is.
\<close>

definition FixTimestamp :: "env \<Rightarrow> int \<Rightarrow> int" where
  "FixTimestamp e t = (if TS_RESOLUTION e \<le> 0 then t else t - t mod TS_RESOLUTION e)"

definition showBuildStatus :: "BuildStatus \<Rightarrow> string" where
  "showBuildStatus st =
     (case st of
        Status_SCHEDULED \<Rightarrow> ''SCHEDULED''
      | Status_STARTED \<Rightarrow> ''STARTED''
      | Status_SUCCESS \<Rightarrow> ''SUCCESS''
      | Status_FAILURE \<Rightarrow> ''FAILURE''
      | Status_INFRA_FAILURE \<Rightarrow> ''INFRA_FAILURE''
      | Status_CANCELED \<Rightarrow> ''CANCELED'')"

text \<open>\<^verbatim>\<open>return t.remoteCancelV1Build(...)\<close>: the error of the cancel is the result.\<close>

definition returnsCancel :: "error option \<times> state \<Rightarrow> error option outcome \<times> state" where
  "returnsCancel r = (Returns (fst r), snd r)"

text \<open>
  The job record \<^verbatim>\<open>insertNewJobV1\<close> builds, with the adjustment of
  \<^verbatim>\<open>Requested\<close> that follows the literal. Fields the literal does not name have
  their zero values.
\<close>

definition newJob :: "env \<Rightarrow> int \<Rightarrow> string \<Rightarrow> RepoState \<Rightarrow> int \<Rightarrow> Job" where
  "newJob e buildId builderName rs requested =
     (let j = \<lparr>JobId = [],
                Name = builderName,
                BuildbucketBuildId = buildId,
                BuildbucketLeaseKey = 0,
                BuildbucketPubSubTopic = [],
                BuildbucketToken = [],
                Status = JOB_STATUS_REQUESTED,
                StatusDetails = [],
                Requested = FixTimestamp e requested,
                Created = FixTimestamp e (now e),
                Finished = 0,
                RepoState = rs,
                Dependencies = [],
                IsForce = False\<rparr>
      in if \<not> Requested j < Created j
         then j\<lparr>Requested := Created j - TS_RESOLUTION e\<rparr>
         else j)"

text \<open>The lease of the build and the insertion of the job, the end of \<^verbatim>\<open>insertNewJobV1\<close>.\<close>

definition leaseNewJob :: "env \<Rightarrow> int \<Rightarrow> Job \<Rightarrow> state \<Rightarrow> error option outcome \<times> state" where
  "leaseNewJob e buildId j s =
     (case tryLeaseV1Build e (BuildbucketBuildId j) s of
        ((leaseKey, bbError, err), s1) \<Rightarrow>
          (case err of
             Some x \<Rightarrow>
               (Returns (Some (Wrapped x (''failed to lease build ''
                  @ FormatInt (BuildbucketBuildId j)))), s1)
           | None \<Rightarrow>
               (case bbError of
                  Some b \<Rightarrow>
                    (if Reason b = BUILDBUCKET_API_ERROR_REASON_INVALID_INPUT
                     then (Returns None, s1)
                     else returnsCancel (remoteCancelV1Build e buildId
                            (''Buildbucket refused lease with '' @ Message b
                             @ '' ('' @ Reason b @ '')'') s1))
                | None \<Rightarrow>
                    (if leaseKey = 0 then
                       returnsCancel (remoteCancelV1Build e buildId
                         ''Buildbucket returned zero lease key'' s1)
                     else
                       (case PutJob e (j\<lparr>BuildbucketLeaseKey := leaseKey\<rparr>) s1 of
                          (Some perr, j', s2) \<Rightarrow>
                            returnsCancel (remoteCancelV1Build e (BuildbucketBuildId j)
                              (''Failed to insert Job into the DB: '' @ Error perr) s2)
                        | (None, j', s2) \<Rightarrow> (Returns None, AddJobs [j'] s2))))))"

text \<open>
  \<^verbatim>\<open>insertNewJobV1\<close> from the validation of the build on, that is, after the
  search for an existing job and the treatment of a build that is not SCHEDULED.
\<close>

definition leaseAndInsert ::
  "env \<Rightarrow> int \<Rightarrow> Build \<Rightarrow> state \<Rightarrow> error option outcome \<times> state" where
  "leaseAndInsert e buildId build s =
     (case Input build of
        None \<Rightarrow> (Panics, s)
      | Some gerritChanges \<Rightarrow>
          (if length gerritChanges \<noteq> 1 then
             returnsCancel (remoteCancelV1Build e buildId
               (''Invalid Build '' @ FormatInt buildId
                @ '': input should have exactly one GerritChanges'') s)
           else
             (let gerritChange = hd gerritChanges
              in case projectRepoMapping e (Project gerritChange) of
                   None \<Rightarrow>
                     returnsCancel (remoteCancelV1Build e buildId
                       (''Unknown patch project '' @ Project gerritChange) s)
                 | Some repoUrl \<Rightarrow>
                     (let server = (if \<not> Contains (Host gerritChange) ''://''
                                    then ''https://'' @ Host gerritChange
                                    else Host gerritChange);
                          rs = \<lparr>Server = server,
                                Issue = FormatInt (Change gerritChange),
                                PatchRepo = repoUrl,
                                Patchset = FormatInt (ChangePatchset gerritChange),
                                Repo = repoUrl,
                                Revision = []\<rparr>
                      in case CreateTime build of
                           None \<Rightarrow>
                             returnsCancel (remoteCancelV1Build e buildId
                               (''Failed to convert timestamp for ''
                                @ FormatInt (BuildId build)) s)
                         | Some requested \<Rightarrow>
                             (case BuildBuilder build of
                                None \<Rightarrow> (Panics, s)
                              | Some builder \<Rightarrow>
                                  leaseNewJob e buildId
                                    (newJob e buildId (Builder builder) rs requested) s)))))"

definition insertNewJobV1 :: "env \<Rightarrow> int \<Rightarrow> state \<Rightarrow> error option outcome \<times> state" where
  "insertNewJobV1 e buildId s =
     (case findJobForBuild e buildId s of
        Inl err \<Rightarrow> (Returns (Wrap (Some err)), s)
      | Inr (Some existingJob) \<Rightarrow> (Returns None, s)
      | Inr None \<Rightarrow>
          (let s0 = rpc (GetBuild buildId) s
           in case bb2_GetBuild e buildId of
                Inl err \<Rightarrow>
                  (Returns (Some (Wrapped err (''failed to retrieve build '' @ FormatInt buildId))),
                   s0)
              | Inr build \<Rightarrow>
                  (if BuildStatus build \<noteq> Status_SCHEDULED then
                     (case tryLeaseV1Build e buildId s0 of
                        ((_, bbError, err), s1) \<Rightarrow>
                          (if err \<noteq> None \<or> bbError \<noteq> None then (Returns None, s1)
                           else
                             (case remoteCancelV1Build e buildId
                                     (''Unexpected status '' @ showBuildStatus (BuildStatus build))
                                     s1 of
                                (Some _, s2) \<Rightarrow> (Returns None, s2)
                              | (None, s2) \<Rightarrow> leaseAndInsert e buildId build s2)))
                   else leaseAndInsert e buildId build s0)))"

subsection \<open>Cleanup of old builds\<close>

text \<open>
  The body of the loop of \<^verbatim>\<open>buildbucketCleanup\<close>, for one build. \<open>Returns None\<close>
  stands for going on with the next build, \<open>Returns (Some err)\<close> for the return of the
  error out of the loop.
\<close>

definition cleanupBuild :: "env \<Rightarrow> Build \<Rightarrow> state \<Rightarrow> error option outcome \<times> state" where
  "cleanupBuild e build s =
     (case BuildBuilder build of
        None \<Rightarrow> (Panics, s)
      | Some builder \<Rightarrow>
          (if Bucket builder \<noteq> buildbucketBucket e then (Returns None, s)
           else
             (case findJobForBuild e (BuildId build) s of
                Inl err \<Rightarrow> (Returns (Wrap (Some err)), s)
              | Inr None \<Rightarrow> (Returns None, s)
              | Inr (Some job) \<Rightarrow>
                  (if Done job then
                     (if BuildbucketToken job = [] then
                        (case cancelBuild e job
                                ''We no longer have an update token for this build'' s of
                           (Some err, s') \<Rightarrow>
                             (Returns (Some (Wrapped err (''failed to cancel build ''
                                @ FormatInt (BuildId build) @ '' (job '' @ JobId job @ '')''))),
                              s')
                         | (None, s') \<Rightarrow> (Returns None, s'))
                      else
                        (case updateBuild e job s of
                           (Some err, s') \<Rightarrow>
                             (if isBuildAlreadyFinishedError (Some err) then (Returns None, s')
                              else
                                (case cancelBuild e job ''Failed to UpdateBuild'' s' of
                                   (Some cerr, s'') \<Rightarrow>
                                     (Returns (Some (Wrapped cerr (''failed to cancel build ''
                                        @ FormatInt (BuildId build) @ '' (job '' @ JobId job
                                        @ '')''))), s'')
                                 | (None, s'') \<Rightarrow> (Returns None, s'')))
                         | (None, s') \<Rightarrow> (Returns None, s')))
                   else (Returns None, s)))))"

fun cleanupBuilds :: "env \<Rightarrow> Build list \<Rightarrow> state \<Rightarrow> error option outcome \<times> state" where
  "cleanupBuilds e [] s = (Returns None, s)"
| "cleanupBuilds e (build # builds) s =
     (case cleanupBuild e build s of
        (Returns None, s') \<Rightarrow> cleanupBuilds e builds s'
      | (r, s') \<Rightarrow> (r, s'))"

definition buildbucketCleanup :: "env \<Rightarrow> state \<Rightarrow> error option outcome \<times> state" where
  "buildbucketCleanup e s =
     (let endTime = now e - CLEANUP_AGE_THRESHOLD;
          s0 = rpc (Search (buildbucketBucket e) endTime) s
      in case bb2_Search e (buildbucketBucket e) endTime of
           Inl err \<Rightarrow> (Returns (Wrap (Some err)), s0)
         | Inr builds \<Rightarrow> cleanupBuilds e builds s0)"

subsection \<open>Concrete inputs\<close>

text \<open>
  A job, an environment in which every collaborator answers without error, and states,
  for evaluating the functions above.
\<close>

definition job0 :: Job where
  "job0 = \<lparr>JobId = ''job-1'', Name = ''Build-Debian10'', BuildbucketBuildId = 42,
            BuildbucketLeaseKey = 7, BuildbucketPubSubTopic = [], BuildbucketToken = [],
            Status = JOB_STATUS_REQUESTED, StatusDetails = [], Requested = 1000, Created = 2000,
            Finished = 0,
            RepoState = \<lparr>Server = ''https://skia-review.googlesource.com'', Issue = ''12345'',
                          PatchRepo = ''skia.git'', Patchset = ''2'', Repo = ''skia.git'',
                          Revision = []\<rparr>,
            Dependencies = [], IsForce = False\<rparr>"

definition env0 :: env where
  "env0 = \<lparr>now = 5000000, TS_RESOLUTION = 1000, buildbucketBucket = ''skia.primary'',
            projectRepoMapping = [''skia'' \<mapsto> ''skia.git''],
            rm = [''skia.git'' \<mapsto> [''main'' \<mapsto> ''abc123'']],
            bb_HeartbeatBatch = (\<lambda>hbs. Inr (map (\<lambda>_. None) hbs)),
            bb_Lease = (\<lambda>bid ts. Inr (Some 7, None)),
            bb_Start = (\<lambda>bid k. Inr None),
            bb_Succeed = (\<lambda>bid k. Inr None),
            bb_Fail = (\<lambda>bid r k. Inr None),
            bb_Cancel = (\<lambda>bid m. Inr None),
            bb2_GetBuild = (\<lambda>bid. Inl (Errorf ''not found'')),
            bb2_StartBuild = (\<lambda>bid jid tok. (''tok1'', None)),
            bb2_UpdateBuild = (\<lambda>bid tok. None),
            bb2_CancelBuild = (\<lambda>bid r. None),
            bb2_Search = (\<lambda>b t. Inr []),
            pubsub_Publish = (\<lambda>t b. None),
            gerrit_GetIssueProperties = (\<lambda>n. Inr ''main''),
            chr_GetOrCacheRepoState = (\<lambda>rs. None),
            taskCfgCache_Get = (\<lambda>rs. Inr (Inr [''Build-Debian10'' \<mapsto> Inr [(''Build-Debian10'', [])]])),
            RepoState_Valid = (\<lambda>rs. Repo rs \<noteq> [] \<and> Revision rs \<noteq> []),
            RepoState_IsTryJob = (\<lambda>rs. Issue rs \<noteq> []),
            newJobId = (\<lambda>bid. ''job-'' @ FormatInt bid),
            db_GetJobById_err = (\<lambda>_. None),
            db_SearchJobs_err = (\<lambda>_. None),
            db_Put_err = (\<lambda>_. None),
            db_Put_stored = (\<lambda>_. 0),
            jCache_Update_err = None,
            jCache_GetJobsByRepoState_err = (\<lambda>_. None)\<rparr>"

definition st0 :: state where
  "st0 = \<lparr>db = [job0], jCache = [], calls = []\<rparr>"

definition jobRunning :: Job where
  "jobRunning = job0\<lparr>Status := JOB_STATUS_IN_PROGRESS\<rparr>"

definition jobV2 :: Job where
  "jobV2 = job0\<lparr>JobId := ''job-2'', BuildbucketBuildId := 43, BuildbucketLeaseKey := 0,
                 BuildbucketPubSubTopic := ''projects/skia/topics/updates'',
                 BuildbucketToken := ''tok1'', Status := JOB_STATUS_IN_PROGRESS\<rparr>"

definition st1 :: state where
  "st1 = \<lparr>db = [jobRunning], jCache = [], calls = []\<rparr>"

definition stEmpty :: state where
  "stEmpty = \<lparr>db = [], jCache = [], calls = []\<rparr>"

definition build0 :: Build where
  "build0 = \<lparr>BuildId = 42, BuildStatus = Status_SCHEDULED,
              Input = Some [\<lparr>Host = ''skia-review.googlesource.com'', Project = ''skia'',
                              Change = 12345, ChangePatchset = 2\<rparr>],
              BuildBuilder = Some \<lparr>BuilderProject = ''skia'', Bucket = ''skia.primary'',
                                    Builder = ''Build-Debian10''\<rparr>,
              CreateTime = Some 6000123\<rparr>"

definition envIntake :: env where
  "envIntake = env0\<lparr>bb2_GetBuild := (\<lambda>bid. Inr build0)\<rparr>"

definition jobIntake :: Job where
  "jobIntake = \<lparr>JobId = ''job-42'', Name = ''Build-Debian10'', BuildbucketBuildId = 42,
                 BuildbucketLeaseKey = 7, BuildbucketPubSubTopic = [], BuildbucketToken = [],
                 Status = JOB_STATUS_REQUESTED, StatusDetails = [], Requested = 4999000,
                 Created = 5000000, Finished = 0,
                 RepoState = \<lparr>Server = ''https://skia-review.googlesource.com'',
                               Issue = ''12345'', PatchRepo = ''skia.git'', Patchset = ''2'',
                               Repo = ''skia.git'', Revision = []\<rparr>,
                 Dependencies = [], IsForce = False\<rparr>"

definition leaseExpired :: LegacyApiErrorMessage where
  "leaseExpired = \<lparr>Message = ''lease has expired'', Reason = ''LEASE_EXPIRED''\<rparr>"

definition envExpired :: env where
  "envExpired = env0\<lparr>bb_HeartbeatBatch := (\<lambda>hbs. Inr (map (\<lambda>_. Some leaseExpired) hbs)),
                      bb_Lease := (\<lambda>bid ts. Inl (Errorf ''connection refused''))\<rparr>"

definition envRefused :: env where
  "envRefused = env0\<lparr>bb_HeartbeatBatch := (\<lambda>hbs. Inr (map (\<lambda>_. Some leaseExpired) hbs)),
                      bb_Lease := (\<lambda>bid ts. Inr (None, Some \<lparr>Message = ''build is completed'',
                                                              Reason = ''BUILD_IS_COMPLETED''\<rparr>))\<rparr>"

definition jobV2Requested :: Job where
  "jobV2Requested = job0\<lparr>JobId := ''job-2'', BuildbucketBuildId := 43, BuildbucketLeaseKey := 0,
                          BuildbucketPubSubTopic := ''projects/skia/topics/updates''\<rparr>"

definition stV2Requested :: state where
  "stV2Requested = \<lparr>db = [jobV2Requested], jCache = [], calls = []\<rparr>"

definition envAlreadyStarted :: env where
  "envAlreadyStarted =
     env0\<lparr>bb2_StartBuild := (\<lambda>bid jid tok.
             ([], Some (Errorf ''rpc error: code = AlreadyExists desc = build 43 has recorded another StartBuild with request id job-2'')))\<rparr>"

definition buildDenied :: Build where
  "buildDenied = build0\<lparr>Input := Some [\<lparr>Host = ''skia-review.googlesource.com'',
                                          Project = ''skia'', Change = 527502,
                                          ChangePatchset = 1\<rparr>]\<rparr>"

definition envDenied :: env where
  "envDenied = env0\<lparr>bb2_GetBuild := (\<lambda>bid. Inr buildDenied)\<rparr>"

definition jobDenied :: Job where
  "jobDenied = jobIntake\<lparr>RepoState := (RepoState jobIntake)\<lparr>Issue := ''527502'',
                                                              Patchset := ''1''\<rparr>\<rparr>"

definition stDenied :: state where
  "stDenied = \<lparr>db = [jobDenied], jCache = [jobDenied],
                calls = [GetBuild 42, Lease 42 1800000000]\<rparr>"

definition jobDoneV2 :: Job where
  "jobDoneV2 = jobV2\<lparr>Status := JOB_STATUS_SUCCESS, Finished := 4000000\<rparr>"

definition jobDoneV1 :: Job where
  "jobDoneV1 = job0\<lparr>Status := JOB_STATUS_FAILURE, Finished := 4000000\<rparr>"

definition envEnded :: env where
  "envEnded =
     env0\<lparr>bb2_UpdateBuild := (\<lambda>bid tok.
             Some (Errorf ''rpc error: code = FailedPrecondition desc = cannot update an ended build'')),
          bb_Fail := (\<lambda>bid reason k. Inl (Errorf ''connection reset''))\<rparr>"

definition stDone :: state where
  "stDone = \<lparr>db = [jobDoneV1, jobDoneV2], jCache = [jobDoneV1, jobDoneV2], calls = []\<rparr>"

definition jobCanceledNoToken :: Job where
  "jobCanceledNoToken = jobV2\<lparr>BuildbucketToken := [], Status := JOB_STATUS_CANCELED,
                              StatusDetails := ''canceled by user'', Finished := 4000000\<rparr>"

definition jobDoneWithToken :: Job where
  "jobDoneWithToken = jobDoneV2\<lparr>JobId := ''job-3'', BuildbucketBuildId := 44\<rparr>"

definition builderPrimary :: BuilderID where
  "builderPrimary = \<lparr>BuilderProject = ''skia'', Bucket = ''skia.primary'',
                      Builder = ''Build-Debian10''\<rparr>"

definition buildOrphan :: Build where
  "buildOrphan = \<lparr>BuildId = 99, BuildStatus = Status_STARTED, Input = None,
                   BuildBuilder = Some builderPrimary, CreateTime = Some 1000\<rparr>"

definition buildStuck :: Build where
  "buildStuck = buildOrphan\<lparr>BuildId := 43\<rparr>"

definition buildStuckWithToken :: Build where
  "buildStuckWithToken = buildOrphan\<lparr>BuildId := 44\<rparr>"

definition envCleanup :: env where
  "envCleanup = envEnded\<lparr>now := 14400000000000,
                        bb2_Search := (\<lambda>bucket endTime.
                          Inr [buildOrphan, buildStuck, buildStuckWithToken])\<rparr>"

definition stCleanup :: state where
  "stCleanup = \<lparr>db = [jobCanceledNoToken, jobDoneWithToken], jCache = [], calls = []\<rparr>"

definition stSearched :: state where
  "stSearched = stCleanup\<lparr>calls := [Search ''skia.primary'' 3600000000000]\<rparr>"

definition stCanceled :: state where
  "stCanceled = stCleanup\<lparr>calls :=
     [Search ''skia.primary'' 3600000000000,
      CancelBuild 43 ''We no longer have an update token for this build'',
      Publish ''projects/skia/topics/updates'' 43]\<rparr>"

definition stUpdated :: state where
  "stUpdated = stCleanup\<lparr>calls :=
     [Search ''skia.primary'' 3600000000000,
      CancelBuild 43 ''We no longer have an update token for this build'',
      Publish ''projects/skia/topics/updates'' 43,
      UpdateBuild 44 JOB_STATUS_SUCCESS [] ''tok1'']\<rparr>"

definition jobInProgress :: Job where
  "jobInProgress = job0\<lparr>Status := JOB_STATUS_IN_PROGRESS,
                         RepoState := (RepoState job0)\<lparr>Revision := ''abc123''\<rparr>,
                         Dependencies := [(''Build-Debian10'', [])]\<rparr>"

definition stStarted :: state where
  "stStarted = \<lparr>db = [jobInProgress], jCache = [jobInProgress],
                 calls = [GetIssueProperties 12345, Start 42 7]\<rparr>"

definition envShortFirst :: env where
  "envShortFirst =
     env0\<lparr>bb_HeartbeatBatch :=
            (\<lambda>hbs. if length hbs = 200 then Inr [] else Inr (map (\<lambda>_. None) hbs))\<rparr>"

definition envPutFails :: env where
  "envPutFails = envEnded\<lparr>db_Put_err := (\<lambda>jobs. Some (Errorf ''deadline exceeded''))\<rparr>"

definition stOnlyV2 :: state where
  "stOnlyV2 = \<lparr>db = [jobDoneV2], jCache = [], calls = []\<rparr>"

definition jobCanceledLater :: Job where
  "jobCanceledLater = jobCanceledNoToken\<lparr>JobId := ''job-4'', BuildbucketBuildId := 45\<rparr>"

definition buildStuckLater :: Build where
  "buildStuckLater = buildOrphan\<lparr>BuildId := 45\<rparr>"

definition envCancelFails :: env where
  "envCancelFails =
     envCleanup\<lparr>bb2_Search := (\<lambda>bucket endTime. Inr [buildStuck, buildStuckLater]),
                bb2_CancelBuild := (\<lambda>bid reason.
                  if bid = 43 then Some (Errorf ''deadline exceeded'') else None)\<rparr>"

definition stTwoCanceled :: state where
  "stTwoCanceled = \<lparr>db = [jobCanceledNoToken, jobCanceledLater], jCache = [], calls = []\<rparr>"

definition envLate :: env where
  "envLate = envCleanup\<lparr>now := 432000000000000,
                        bb2_Search := (\<lambda>bucket endTime. Inr [buildStuck])\<rparr>"

section \<open>Properties\<close>

subsection \<open>Lookups in the database\<close>

lemma find_app:
  "find P (xs @ ys) = (case find P xs of Some x \<Rightarrow> Some x | None \<Rightarrow> find P ys)"
  by (induction xs) auto

lemma find_replace_other:
  "JobId j \<noteq> k \<Longrightarrow>
   find (\<lambda>x. JobId x = k) (map (\<lambda>j'. if JobId j' = JobId j then j else j') js) =
   find (\<lambda>x. JobId x = k) js"
  by (induction js) auto

lemma find_replace_same:
  "list_ex (\<lambda>j'. JobId j' = JobId j) js \<Longrightarrow>
   find (\<lambda>x. JobId x = JobId j) (map (\<lambda>j'. if JobId j' = JobId j then j else j') js) = Some j"
  by (induction js) auto

lemma find_upsert:
  "find (\<lambda>x. JobId x = k) (upsert j js) =
     (if JobId j = k then Some j else find (\<lambda>x. JobId x = k) js)"
proof (cases "list_ex (\<lambda>j'. JobId j' = JobId j) js")
  case True
  then show ?thesis
    unfolding upsert_def by (auto simp: find_replace_other find_replace_same)
next
  case False
  then have "find (\<lambda>x. JobId x = JobId j) js = None"
    by (auto simp: find_None_iff list_ex_iff)
  with False show ?thesis
    unfolding upsert_def by (auto simp: find_app split: option.splits)
qed

lemma find_fold_upsert:
  "find (\<lambda>x. JobId x = k) (fold upsert jobs js) =
     (case find (\<lambda>x. JobId x = k) (rev jobs) of
        Some j \<Rightarrow> Some j
      | None \<Rightarrow> find (\<lambda>x. JobId x = k) js)"
proof (induction jobs arbitrary: js)
  case Nil
  then show ?case by simp
next
  case (Cons a jobs)
  show ?case
    by (simp add: Cons.IH find_upsert find_app split: option.splits)
qed

lemma find_distinct_nth:
  assumes "distinct (map JobId jobs)" "i < length jobs"
  shows "find (\<lambda>x. JobId x = JobId (jobs ! i)) jobs = Some (jobs ! i)"
  using assms
proof (induction jobs arbitrary: i)
  case Nil
  then show ?case by simp
next
  case (Cons a jobs)
  show ?case
  proof (cases i)
    case 0
    then show ?thesis by simp
  next
    case (Suc n)
    with Cons.prems have "JobId a \<noteq> JobId (jobs ! n)" "n < length jobs"
      by auto
    with Cons Suc show ?thesis by simp
  qed
qed

lemma find_rev_distinct_nth:
  assumes "distinct (map JobId jobs)" "i < length jobs"
  shows "find (\<lambda>x. JobId x = JobId (jobs ! i)) (rev jobs) = Some (jobs ! i)"
proof -
  have d: "distinct (map JobId (rev jobs))"
    using assms(1) by (simp add: rev_map [symmetric])
  have "rev jobs ! (length jobs - Suc i) = jobs ! i"
    using assms(2) by (simp add: rev_nth)
  moreover have "length jobs - Suc i < length (rev jobs)"
    using assms(2) by simp
  ultimately show ?thesis
    using find_distinct_nth [OF d, of "length jobs - Suc i"] by simp
qed

subsection \<open>Active try jobs\<close>

text \<open>
  Claim C5, as amended. \<^verbatim>\<open>getActiveTryJobs\<close> returns exactly the cached jobs that
  hold a non-zero lease key or a non-empty update token, and that, whichever of the two they
  hold, are not REQUESTED: the disjunction is grouped, and the condition on the status
  applies to both of its sides.
\<close>

theorem getActiveTryJobs_grouped:
  assumes "getActiveTryJobs e s = (Inr jobs, s')"
  shows "j \<in> set jobs \<longleftrightarrow>
           j \<in> set (GetAllCachedJobs s')
           \<and> (BuildbucketLeaseKey j \<noteq> 0 \<or> BuildbucketToken j \<noteq> [])
           \<and> Status j \<noteq> JOB_STATUS_REQUESTED"
  using assms
  by (auto simp: getActiveTryJobs_def split: prod.splits option.splits)

theorem getActiveTryJobs_grouped_witness:
  "getActiveTryJobs env0 st1 = (Inr [jobRunning], st1\<lparr>jCache := [jobRunning]\<rparr>)
   \<and> jobRunning \<in> set [jobRunning]
   \<and> jobRunning \<in> set (GetAllCachedJobs (st1\<lparr>jCache := [jobRunning]\<rparr>))
   \<and> BuildbucketLeaseKey jobRunning = 7
   \<and> Status jobRunning = JOB_STATUS_IN_PROGRESS"
proof -
  have h: "getActiveTryJobs env0 st1 = (Inr [jobRunning], st1\<lparr>jCache := [jobRunning]\<rparr>)"
    by (simp add: getActiveTryJobs_def jCache_Update_def GetAllCachedJobs_def env0_def st1_def
                  jobRunning_def job0_def)
  have v: "BuildbucketLeaseKey jobRunning = 7 \<and> Status jobRunning = JOB_STATUS_IN_PROGRESS"
    by (simp add: jobRunning_def job0_def)
  from getActiveTryJobs_grouped [OF h, of jobRunning] h v show ?thesis
    by simp
qed

text \<open>
  Claim C5 as it is stated, with the conjunction binding tighter than the disjunction
  ("a non-zero lease key, or: a non-empty token and not REQUESTED"), fails: a REQUESTED job
  that holds lease key 7, as every job is between intake and start, is in the cache and
  satisfies the stated condition, and \<^verbatim>\<open>getActiveTryJobs\<close> leaves it out.
\<close>

theorem getActiveTryJobs_as_stated_counterexample:
  "job0 \<in> set (GetAllCachedJobs (snd (getActiveTryJobs env0 st0)))
   \<and> fst (getActiveTryJobs env0 st0) = Inr []
   \<and> \<not> (job0 \<in> set [] \<longleftrightarrow>
           (BuildbucketLeaseKey job0 \<noteq> 0
            \<or> BuildbucketToken job0 \<noteq> [] \<and> Status job0 \<noteq> JOB_STATUS_REQUESTED))"
  by (simp add: getActiveTryJobs_def jCache_Update_def GetAllCachedJobs_def env0_def st0_def
                job0_def)

subsection \<open>Canceling a job locally\<close>

text \<open>
  Claim C10. When \<^verbatim>\<open>localCancelJobs\<close> is given as many reasons as jobs, every job
  comes back with its lease key zero, its status CANCELED, its status details the reason
  of its position and its finished time the current time, and with every other field as it
  was: the update token in particular. When the write succeeds and the jobs have distinct
  ids, the database holds the job in that form, token included.
\<close>

theorem localCancelJobs_frame:
  assumes "localCancelJobs e jobs reasons s = (err, jobs', s')"
    and "length jobs = length reasons"
    and "i < length jobs"
  shows "length jobs' = length jobs
         \<and> BuildbucketLeaseKey (jobs' ! i) = 0
         \<and> Status (jobs' ! i) = JOB_STATUS_CANCELED
         \<and> StatusDetails (jobs' ! i) = reasons ! i
         \<and> Finished (jobs' ! i) = now e
         \<and> BuildbucketToken (jobs' ! i) = BuildbucketToken (jobs ! i)
         \<and> JobId (jobs' ! i) = JobId (jobs ! i)
         \<and> Name (jobs' ! i) = Name (jobs ! i)
         \<and> BuildbucketBuildId (jobs' ! i) = BuildbucketBuildId (jobs ! i)
         \<and> BuildbucketPubSubTopic (jobs' ! i) = BuildbucketPubSubTopic (jobs ! i)
         \<and> Requested (jobs' ! i) = Requested (jobs ! i)
         \<and> Created (jobs' ! i) = Created (jobs ! i)
         \<and> RepoState (jobs' ! i) = RepoState (jobs ! i)
         \<and> Dependencies (jobs' ! i) = Dependencies (jobs ! i)
         \<and> IsForce (jobs' ! i) = IsForce (jobs ! i)
         \<and> (err = None \<and> distinct (map JobId jobs) \<longrightarrow>
               find (\<lambda>x. JobId x = JobId (jobs ! i)) (db s') = Some (jobs' ! i))"
proof -
  let ?c = "map (\<lambda>(j, reason). cancelFields e j reason) (zip jobs reasons)"
  have j': "jobs' = ?c"
    using assms(1,2) by (auto simp: localCancelJobs_def Let_def split: prod.splits option.splits)
  have nth: "jobs' ! i = cancelFields e (jobs ! i) (reasons ! i)"
    using assms(2,3) by (simp add: j')
  have ids: "map JobId jobs' = map JobId jobs"
    unfolding j' using assms(2)
    by (induction jobs reasons rule: list_induct2) (auto simp: cancelFields_def)
  have len: "length jobs' = length jobs"
    using assms(2) by (simp add: j')
  have persisted: "find (\<lambda>x. JobId x = JobId (jobs ! i)) (db s') = Some (jobs' ! i)"
    if "err = None" "distinct (map JobId jobs)"
  proof -
    have "db s' = fold upsert jobs' (db s)"
      using assms(1,2) that(1)
      by (auto simp: localCancelJobs_def PutJobsInChunks_def AddJobs_def Let_def j'
               split: prod.splits option.splits)
    moreover have "JobId (jobs ! i) = JobId (jobs' ! i)"
      by (simp add: nth cancelFields_def)
    moreover have "find (\<lambda>x. JobId x = JobId (jobs' ! i)) (rev jobs') = Some (jobs' ! i)"
      using find_rev_distinct_nth [of jobs' i] that(2) ids len assms(3) by simp
    ultimately show ?thesis
      by (simp add: find_fold_upsert)
  qed
  show ?thesis
    using len persisted by (simp add: nth cancelFields_def)
qed

theorem localCancelJobs_frame_witness:
  "length [jobV2] = length [''lease lost'']
   \<and> BuildbucketLeaseKey (fst (snd (localCancelJobs env0 [jobV2] [''lease lost''] st1)) ! 0) = 0
   \<and> Status (fst (snd (localCancelJobs env0 [jobV2] [''lease lost''] st1)) ! 0)
       = JOB_STATUS_CANCELED
   \<and> BuildbucketToken (fst (snd (localCancelJobs env0 [jobV2] [''lease lost''] st1)) ! 0)
       = ''tok1''
   \<and> map BuildbucketToken (db (snd (snd (localCancelJobs env0 [jobV2] [''lease lost''] st1))))
       = [[], ''tok1'']"
proof -
  let ?r = "localCancelJobs env0 [jobV2] [''lease lost''] st1"
  have h: "?r = (fst ?r, fst (snd ?r), snd (snd ?r))"
    by simp
  have l: "length [jobV2] = length [''lease lost'']"
    by simp
  have i: "0 < length [jobV2]"
    by simp
  have d: "map BuildbucketToken (db (snd (snd ?r))) = [[], ''tok1'']"
    by (simp add: localCancelJobs_def PutJobsInChunks_def AddJobs_def upsert_def cancelFields_def
                  Let_def env0_def st1_def jobV2_def jobRunning_def job0_def)
  from localCancelJobs_frame [OF h l i] d show ?thesis
    by (simp add: jobV2_def)
qed

subsection \<open>Starting a job that has already started\<close>

lemma getRevision_db: "getRevision e repo issue s = (r, s1) \<Longrightarrow> db s1 = db s"
  by (auto simp: getRevision_def rpc_def Let_def split: option.splits sum.splits)

lemma startJobHelper_frame:
  "startJobHelper e job s = (r, job1, s1) \<Longrightarrow> JobId job1 = JobId job \<and> db s1 = db s"
  by (auto simp: startJobHelper_def Let_def
           split: option.splits sum.splits prod.splits if_splits dest!: getRevision_db)

lemma jobStarted_db: "jobStarted e j s = (r, s1) \<Longrightarrow> db s1 = db s"
  by (auto simp: jobStarted_def rpc_def Let_def split: if_splits sum.splits prod.splits)

lemma insertStarted_stored:
  assumes "insertStarted e j s = (Returns None, j', s')" "JobId j \<noteq> []"
  shows "j' = j \<and> db s' = upsert j (db s)"
  using assms
  by (auto simp: insertStarted_def PutJob_def AddJobs_def Let_def split: option.splits)

lemma startJob_success_stored:
  assumes "GetJobById e (JobId job) s = Inr (Some u)"
    and "Status u = JOB_STATUS_REQUESTED"
    and "JobId job \<noteq> []"
    and "startJob e job s = (Returns None, job', s')"
  shows "JobId job' = JobId job \<and> Status job' \<noteq> JOB_STATUS_REQUESTED
         \<and> db s' = upsert job' (db s)"
proof -
  obtain r job1 s1 where h: "startJobHelper e job s = (r, job1, s1)"
    by (metis prod.collapse)
  from startJobHelper_frame [OF h] have f1: "JobId job1 = JobId job" "db s1 = db s"
    by auto
  show ?thesis
  proof (cases r)
    case (Some err)
    let ?m = "job1\<lparr>Status := JOB_STATUS_MISHAP,
                    StatusDetails := Truncate (''Failed to start Job: '' @ Error (Unwrap err)) 1024\<rparr>"
    have "insertStarted e ?m s1 = (Returns None, job', s')"
      using assms(1,2,4) h Some by (simp add: startJob_def)
    from insertStarted_stored [OF this] f1 assms(3) show ?thesis
      by auto
  next
    case None
    let ?p = "job1\<lparr>Status := JOB_STATUS_IN_PROGRESS\<rparr>"
    obtain bbToken bbError err s2 where j: "jobStarted e ?p s1 = ((bbToken, bbError, err), s2)"
      by (metis prod.collapse)
    from jobStarted_db [OF j] f1 have f2: "db s2 = db s"
      by simp
    have "insertStarted e (if bbToken \<noteq> [] then ?p\<lparr>BuildbucketToken := bbToken\<rparr> else ?p) s2
          = (Returns None, job', s')"
      using assms(1,2,4) h None j
      by (auto simp: startJob_def Let_def Wrapf_def
               split: if_splits option.splits prod.splits)
    from insertStarted_stored [OF this] f1 f2 assms(3) show ?thesis
      by (auto split: if_splits)
  qed
qed

lemma startJob_noop:
  assumes "GetJobById e (JobId job) s = Inr (Some updatedJob)"
    and "Status updatedJob \<noteq> JOB_STATUS_REQUESTED"
  shows "startJob e job s = (Returns None, job, s)"
  using assms by (simp add: startJob_def)

text \<open>
  Claim C6. \<^verbatim>\<open>startJob\<close> reads the job again from the database by its id. When the
  job read has a status other than REQUESTED, \<^verbatim>\<open>startJob\<close> returns without an error,
  and the job and the state are as they were: no remote call has been issued and nothing
  has been written. So of two triggers for one REQUESTED job, run one after the other, only
  the first starts it: once a call has returned without an error, the database holds the job
  with a status other than REQUESTED, and a later call for that id, from any copy of the job,
  does nothing.
\<close>

theorem startJob_skips_started:
  "(GetJobById e (JobId job) s = Inr (Some updatedJob)
    \<and> Status updatedJob \<noteq> JOB_STATUS_REQUESTED
    \<longrightarrow> startJob e job s = (Returns None, job, s))
   \<and> (GetJobById e (JobId job) s = Inr (Some updatedJob)
      \<and> Status updatedJob = JOB_STATUS_REQUESTED
      \<and> JobId job \<noteq> []
      \<and> startJob e job s = (Returns None, job', s')
      \<and> JobId job2 = JobId job
      \<and> db_GetJobById_err e2 (JobId job) = None
      \<longrightarrow> Status job' \<noteq> JOB_STATUS_REQUESTED
          \<and> GetJobById e2 (JobId job2) s' = Inr (Some job')
          \<and> startJob e2 job2 s' = (Returns None, job2, s'))"
proof (intro conjI impI)
  assume "GetJobById e (JobId job) s = Inr (Some updatedJob)
    \<and> Status updatedJob \<noteq> JOB_STATUS_REQUESTED"
  then show "startJob e job s = (Returns None, job, s)"
    by (simp add: startJob_noop)
next
  assume a: "GetJobById e (JobId job) s = Inr (Some updatedJob)
      \<and> Status updatedJob = JOB_STATUS_REQUESTED
      \<and> JobId job \<noteq> []
      \<and> startJob e job s = (Returns None, job', s')
      \<and> JobId job2 = JobId job
      \<and> db_GetJobById_err e2 (JobId job) = None"
  then have st: "JobId job' = JobId job" "Status job' \<noteq> JOB_STATUS_REQUESTED"
    "db s' = upsert job' (db s)"
    using startJob_success_stored [of e job s updatedJob job' s'] by auto
  then have g: "GetJobById e2 (JobId job2) s' = Inr (Some job')"
    using a by (simp add: GetJobById_def find_upsert)
  from st(2) show "Status job' \<noteq> JOB_STATUS_REQUESTED" .
  from g show "GetJobById e2 (JobId job2) s' = Inr (Some job')" .
  from startJob_noop [OF g st(2)] show "startJob e2 job2 s' = (Returns None, job2, s')" .
qed

theorem startJob_skips_started_witness:
  "GetJobById env0 (JobId job0) st1 = Inr (Some jobRunning)
   \<and> Status jobRunning \<noteq> JOB_STATUS_REQUESTED
   \<and> startJob env0 job0 st1 = (Returns None, job0, st1)
   \<and> GetJobById env0 (JobId job0) st0 = Inr (Some job0)
   \<and> Status job0 = JOB_STATUS_REQUESTED
   \<and> JobId job0 \<noteq> []
   \<and> startJob env0 job0 st0 = (Returns None, jobInProgress, stStarted)
   \<and> db_GetJobById_err env0 (JobId job0) = None
   \<and> Status jobInProgress = JOB_STATUS_IN_PROGRESS
   \<and> GetJobById env0 (JobId job0) stStarted = Inr (Some jobInProgress)
   \<and> startJob env0 job0 stStarted = (Returns None, job0, stStarted)"
proof -
  have g: "GetJobById env0 (JobId job0) st1 = Inr (Some jobRunning)
           \<and> Status jobRunning \<noteq> JOB_STATUS_REQUESTED"
    by (simp add: GetJobById_def env0_def st1_def jobRunning_def job0_def)
  have p: "ParseInt ''12345'' = Some 12345"
    by (simp add: ParseInt_def digitVal_def Let_def)
  have h: "GetJobById env0 (JobId job0) st0 = Inr (Some job0)
           \<and> Status job0 = JOB_STATUS_REQUESTED
           \<and> JobId job0 \<noteq> []
           \<and> startJob env0 job0 st0 = (Returns None, jobInProgress, stStarted)
           \<and> JobId job0 = JobId job0
           \<and> db_GetJobById_err env0 (JobId job0) = None"
    by (simp add: startJob_def GetJobById_def startJobHelper_def getRevision_def p jobStarted_def
                  isBuildAlreadyStartedError_def Wrap_def isBBv2_def skipRepoState_def
                  GetJobsByRepoState_def insertStarted_def PutJob_def AddJobs_def upsert_def
                  rpc_def Let_def env0_def st0_def stStarted_def jobInProgress_def job0_def)
  have v: "Status jobInProgress = JOB_STATUS_IN_PROGRESS"
    by (simp add: jobInProgress_def)
  from startJob_skips_started [of env0 job0 st1 jobRunning]
       startJob_skips_started [of env0 job0 st0 job0 jobInProgress stStarted job0 env0]
       g h v
  show ?thesis
    by simp
qed

subsection \<open>Timestamps of a new job\<close>

lemma db_rpc [simp]: "db (rpc c s) = db s"
  by (simp add: rpc_def)

lemma db_tryLeaseV1Build [simp]: "db (snd (tryLeaseV1Build e b s)) = db s"
  by (simp add: tryLeaseV1Build_def Let_def split: sum.splits prod.splits)

lemma db_remoteCancelV1Build [simp]: "db (snd (remoteCancelV1Build e b m s)) = db s"
  by (simp add: remoteCancelV1Build_def Let_def split: sum.splits option.splits)

lemma in_set_upsert: "x \<in> set (upsert j js) \<Longrightarrow> x = j \<or> x \<in> set js"
  by (auto simp: upsert_def split: if_splits)

lemma tryLeaseV1Build_db: "tryLeaseV1Build e b s = (r, s1) \<Longrightarrow> db s1 = db s"
  using db_tryLeaseV1Build [of e b s] by simp

lemma remoteCancelV1Build_db: "remoteCancelV1Build e b m s = (r, s1) \<Longrightarrow> db s1 = db s"
  using db_remoteCancelV1Build [of e b m s] by simp

lemma FixTimestamp_mono:
  assumes "0 < TS_RESOLUTION e" "a \<le> b"
  shows "FixTimestamp e a \<le> FixTimestamp e b"
proof -
  have "a div TS_RESOLUTION e \<le> b div TS_RESOLUTION e"
    using assms by (simp add: zdiv_mono1)
  then have "TS_RESOLUTION e * (a div TS_RESOLUTION e) \<le> TS_RESOLUTION e * (b div TS_RESOLUTION e)"
    using assms(1) by simp
  moreover have "a - a mod TS_RESOLUTION e = TS_RESOLUTION e * (a div TS_RESOLUTION e)"
    by (simp add: minus_mod_eq_mult_div)
  moreover have "b - b mod TS_RESOLUTION e = TS_RESOLUTION e * (b div TS_RESOLUTION e)"
    by (simp add: minus_mod_eq_mult_div)
  ultimately show ?thesis
    using assms(1) by (simp add: FixTimestamp_def)
qed

lemma newJob_Requested_before_Created:
  "0 < TS_RESOLUTION e \<Longrightarrow>
   Requested (newJob e buildId name rs requested) < Created (newJob e buildId name rs requested)"
  by (simp add: newJob_def Let_def)

lemma newJob_Requested_forced:
  assumes "0 < TS_RESOLUTION e" "now e \<le> requested"
  shows "Requested (newJob e buildId name rs requested)
         = Created (newJob e buildId name rs requested) - TS_RESOLUTION e"
  using FixTimestamp_mono [OF assms] by (simp add: newJob_def Let_def)

lemma leaseNewJob_db:
  assumes "leaseNewJob e buildId j s = (r, s')" "x \<in> set (db s')" "x \<notin> set (db s)"
  shows "Requested x = Requested j \<and> Created x = Created j"
proof -
  obtain leaseKey bbError err s1 where
    l: "tryLeaseV1Build e (BuildbucketBuildId j) s = ((leaseKey, bbError, err), s1)"
    by (metis prod.collapse)
  then have s1: "db s1 = db s"
    by (rule tryLeaseV1Build_db)
  show ?thesis
  proof (cases "err = None \<and> bbError = None \<and> leaseKey \<noteq> 0
                \<and> db_Put_err e [j\<lparr>BuildbucketLeaseKey := leaseKey\<rparr>] = None")
    case True
    define J where
      "J = (if JobId j = [] then j\<lparr>BuildbucketLeaseKey := leaseKey,
                                     JobId := newJobId e (BuildbucketBuildId j)\<rparr>
            else j\<lparr>BuildbucketLeaseKey := leaseKey\<rparr>)"
    have "db s' = upsert J (db s)"
      using assms(1) l s1 True
      by (auto simp: leaseNewJob_def PutJob_def AddJobs_def Let_def J_def)
    with assms(2,3) have "x = J"
      by (auto dest: in_set_upsert)
    then show ?thesis
      by (simp add: J_def)
  next
    case False
    then have "db s' = db s"
      using assms(1) l s1
      by (auto simp: leaseNewJob_def PutJob_def returnsCancel_def Let_def
               split: option.splits if_splits prod.splits dest: remoteCancelV1Build_db)
    with assms(2,3) show ?thesis by simp
  qed
qed

lemma leaseAndInsert_db:
  assumes "leaseAndInsert e buildId build s = (r, s')" "x \<in> set (db s')" "x \<notin> set (db s)"
  shows "\<exists>name rs requested. CreateTime build = Some requested
           \<and> Requested x = Requested (newJob e buildId name rs requested)
           \<and> Created x = Created (newJob e buildId name rs requested)"
  using assms
  by (auto simp: leaseAndInsert_def returnsCancel_def Let_def
           split: option.splits if_splits dest!: leaseNewJob_db)

text \<open>
  Claim C9. With a positive timestamp resolution, every job that \<^verbatim>\<open>insertNewJobV1\<close>
  adds to the database has its requested time strictly before its created time; and when
  the creation time of the remote build is not before the current time, the requested time
  is the created time less one resolution unit. The record is built, and adjusted, before
  the lease is attempted: \<open>newJob\<close> is the argument of \<open>leaseNewJob\<close>.
\<close>

theorem insertNewJobV1_Requested_before_Created:
  assumes "0 < TS_RESOLUTION e"
    and "insertNewJobV1 e buildId s = (r, s')"
    and "j \<in> set (db s')"
    and "j \<notin> set (db s)"
  shows "Requested j < Created j
         \<and> (\<forall>build requested.
               bb2_GetBuild e buildId = Inr build \<and> CreateTime build = Some requested
               \<and> now e \<le> requested
               \<longrightarrow> Requested j = Created j - TS_RESOLUTION e)"
proof -
  have "db s' = db s \<or> (\<exists>build s0. bb2_GetBuild e buildId = Inr build
          \<and> leaseAndInsert e buildId build s0 = (r, s') \<and> db s0 = db s)"
    using assms(2)
    by (auto simp: insertNewJobV1_def Let_def
             split: sum.splits option.splits if_splits prod.splits
             dest!: remoteCancelV1Build_db tryLeaseV1Build_db)
  with assms(3,4) have "\<exists>build s0. bb2_GetBuild e buildId = Inr build
          \<and> leaseAndInsert e buildId build s0 = (r, s') \<and> db s0 = db s"
    by auto
  then obtain build s0 where
    b: "bb2_GetBuild e buildId = Inr build" "leaseAndInsert e buildId build s0 = (r, s')"
       "db s0 = db s"
    by blast
  have "j \<notin> set (db s0)"
    using assms(4) b(3) by simp
  from leaseAndInsert_db [OF b(2) assms(3) this]
  obtain name rs requested where
    n: "CreateTime build = Some requested"
       "Requested j = Requested (newJob e buildId name rs requested)"
       "Created j = Created (newJob e buildId name rs requested)"
    by blast
  show ?thesis
    using b(1) n newJob_Requested_before_Created [OF assms(1)]
      newJob_Requested_forced [OF assms(1)]
    by auto
qed

theorem insertNewJobV1_Requested_before_Created_witness:
  "0 < TS_RESOLUTION envIntake
   \<and> insertNewJobV1 envIntake 42 stEmpty =
       (Returns None,
        \<lparr>db = [jobIntake], jCache = [jobIntake],
          calls = [GetBuild 42, Lease 42 1800000000]\<rparr>)
   \<and> jobIntake \<in> set [jobIntake]
   \<and> jobIntake \<notin> set (db stEmpty)
   \<and> bb2_GetBuild envIntake 42 = Inr build0
   \<and> CreateTime build0 = Some 6000123
   \<and> now envIntake \<le> 6000123
   \<and> Requested jobIntake < Created jobIntake
   \<and> Requested jobIntake = Created jobIntake - TS_RESOLUTION envIntake"
proof -
  have r: "0 < TS_RESOLUTION envIntake"
    by (simp add: envIntake_def env0_def)
  have i: "insertNewJobV1 envIntake 42 stEmpty =
             (Returns None,
              \<lparr>db = [jobIntake], jCache = [jobIntake],
                calls = [GetBuild 42, Lease 42 1800000000]\<rparr>)"
    by (simp add: insertNewJobV1_def findJobForBuild_def SearchJobs_def leaseAndInsert_def
                  leaseNewJob_def newJob_def tryLeaseV1Build_def PutJob_def AddJobs_def
                  upsert_def FixTimestamp_def rpc_def Let_def FormatInt_def FormatNat.simps
                  LEASE_DURATION_INITIAL_def Second_def secondsToMicros_def
                  envIntake_def env0_def build0_def stEmpty_def jobIntake_def)
  have m: "jobIntake \<in> set (db \<lparr>db = [jobIntake], jCache = [jobIntake],
                                  calls = [GetBuild 42, Lease 42 1800000000]\<rparr>)"
    by simp
  have n: "jobIntake \<notin> set (db stEmpty)"
    by (simp add: stEmpty_def)
  have g: "bb2_GetBuild envIntake 42 = Inr build0 \<and> CreateTime build0 = Some 6000123
           \<and> now envIntake \<le> 6000123"
    by (simp add: envIntake_def env0_def build0_def)
  from insertNewJobV1_Requested_before_Created [OF r i m n] r i n g show ?thesis
    by simp
qed

subsection \<open>Heartbeat batches\<close>

lemma sendBatches_Nil: "sendBatches e expiration [] s = ([], [], s)"
  by (subst sendBatches.simps) simp

lemma sendBatches_step:
  assumes "LEASE_BATCH_SIZE \<le> length jobs \<or> rest = []" "jobs \<noteq> []"
  shows "sendBatches e expiration (jobs @ rest) s =
           (case send e expiration (take LEASE_BATCH_SIZE jobs) s of
              (batch', errs1, s1) \<Rightarrow>
                (case sendBatches e expiration (drop LEASE_BATCH_SIZE jobs @ rest) s1 of
                   (rest', errs2, s2) \<Rightarrow> (batch' @ rest', errs1 @ errs2, s2)))"
proof -
  have t: "take (if LEASE_BATCH_SIZE > length (jobs @ rest) then length (jobs @ rest)
                 else LEASE_BATCH_SIZE) (jobs @ rest) = take LEASE_BATCH_SIZE jobs"
    using assms(1) by auto
  have d: "drop (if LEASE_BATCH_SIZE > length (jobs @ rest) then length (jobs @ rest)
                 else LEASE_BATCH_SIZE) (jobs @ rest) = drop LEASE_BATCH_SIZE jobs @ rest"
    using assms(1) by auto
  show ?thesis
    using assms(2)
    by (subst sendBatches.simps) (simp only: Let_def t d, simp)
qed

lemma sendBatches_append:
  "length pre = k * LEASE_BATCH_SIZE \<Longrightarrow>
   sendBatches e expiration (pre @ rest) s =
     (case sendBatches e expiration pre s of
        (pre', errs1, s1) \<Rightarrow>
          (case sendBatches e expiration rest s1 of
             (rest', errs2, s2) \<Rightarrow> (pre' @ rest', errs1 @ errs2, s2)))"
proof (induction k arbitrary: pre s)
  case 0
  then show ?case
    by (simp add: sendBatches_Nil split: prod.splits)
next
  case (Suc k)
  then have l: "LEASE_BATCH_SIZE \<le> length pre" and n: "pre \<noteq> []"
    by (auto simp: LEASE_BATCH_SIZE_def)
  have dl: "length (drop LEASE_BATCH_SIZE pre) = k * LEASE_BATCH_SIZE"
    using Suc.prems by simp
  have a: "sendBatches e expiration (pre @ rest) s =
           (case send e expiration (take LEASE_BATCH_SIZE pre) s of
              (batch', errs1, s1) \<Rightarrow>
                (case sendBatches e expiration (drop LEASE_BATCH_SIZE pre @ rest) s1 of
                   (rest', errs2, s2) \<Rightarrow> (batch' @ rest', errs1 @ errs2, s2)))"
    using l n by (intro sendBatches_step) auto
  have b: "sendBatches e expiration pre s =
           (case send e expiration (take LEASE_BATCH_SIZE pre) s of
              (batch', errs1, s1) \<Rightarrow>
                (case sendBatches e expiration (drop LEASE_BATCH_SIZE pre) s1 of
                   (rest', errs2, s2) \<Rightarrow> (batch' @ rest', errs1 @ errs2, s2)))"
    using sendBatches_step [of pre "[]" e expiration s] l n by simp
  show ?case
    by (simp add: a b Suc.IH [OF dl] split: prod.splits)
qed

text \<open>
  Claim C7. \<^verbatim>\<open>sendHeartbeats\<close> walks the jobs, sorted by build id, in batches. Let the
  heartbeat RPC of one batch answer with a result list of the wrong length. Then the jobs
  of that batch come back as they were, the state after the batch is the state before it
  with the heartbeat call added and nothing else (no lease, no cancel, no write), the
  jobs after the batch are sent from that state, and \<^verbatim>\<open>sendHeartbeats\<close> returns
  an error that aggregates the errors of the batches before, the error of the mismatch,
  and the errors of the batches after. The function has no outcome other than a return,
  so there is no panic.
\<close>

theorem sendHeartbeats_mismatch:
  assumes "sort_key BuildbucketBuildId jobs = pre @ batch @ post"
    and "length pre = k * LEASE_BATCH_SIZE"
    and "batch = take LEASE_BATCH_SIZE (batch @ post)"
    and "batch \<noteq> []"
    and "expiration = ((now e + LEASE_DURATION) div Second) * secondsToMicros"
    and "heartbeats = map (\<lambda>j. (BuildbucketBuildId j, BuildbucketLeaseKey j, expiration)) batch"
    and "bb_HeartbeatBatch e heartbeats = Inr results"
    and "length results \<noteq> length batch"
    and "sendBatches e expiration pre s = (pre', errs1, s1)"
    and "sendBatches e expiration post (rpc (HeartbeatBatch heartbeats) s1) = (post', errs2, s2)"
  shows "sendHeartbeats e jobs s =
           (Some (Errorf (''got errors sending heartbeats: ''
              @ showErrors (errs1
                  @ Errorf (''Heartbeat result has incorrect number of jobs (''
                            @ FormatInt (int (length results)) @ '' vs ''
                            @ FormatInt (int (length batch)) @ '')'')
                  # errs2))),
            pre' @ batch @ post', s2)"
proof -
  have sd: "send e expiration batch s1 =
           (batch,
            [Errorf (''Heartbeat result has incorrect number of jobs (''
                     @ FormatInt (int (length results)) @ '' vs ''
                     @ FormatInt (int (length batch)) @ '')'')],
            rpc (HeartbeatBatch heartbeats) s1)"
    using assms(6,7,8) by (simp add: send_def Let_def)
  have full: "LEASE_BATCH_SIZE \<le> length batch \<or> post = []"
  proof (cases "LEASE_BATCH_SIZE \<le> length batch")
    case True
    then show ?thesis by simp
  next
    case False
    then have "take LEASE_BATCH_SIZE (batch @ post) = batch @ take (LEASE_BATCH_SIZE - length batch) post"
      by simp
    with assms(3) have "take (LEASE_BATCH_SIZE - length batch) post = []"
      by simp
    with False show ?thesis
      by auto
  qed
  have le: "length batch \<le> LEASE_BATCH_SIZE"
    by (subst assms(3)) (simp only: length_take min.cobounded2)
  have tk: "take LEASE_BATCH_SIZE batch = batch"
    using le by simp
  have dr: "drop LEASE_BATCH_SIZE batch = []"
    using le by simp
  have "sendBatches e expiration (batch @ post) s1 =
          (batch @ post',
           Errorf (''Heartbeat result has incorrect number of jobs (''
                   @ FormatInt (int (length results)) @ '' vs ''
                   @ FormatInt (int (length batch)) @ '')'') # errs2, s2)"
    using sendBatches_step [OF full assms(4), of e expiration s1] assms(10)
    by (simp add: tk dr sd)
  then have "sendBatches e expiration (pre @ batch @ post) s =
          (pre' @ batch @ post',
           errs1 @ Errorf (''Heartbeat result has incorrect number of jobs (''
                   @ FormatInt (int (length results)) @ '' vs ''
                   @ FormatInt (int (length batch)) @ '')'') # errs2, s2)"
    using sendBatches_append [OF assms(2), of e expiration "batch @ post" s] assms(9)
    by simp
  then show ?thesis
    using assms(1,5) by (simp add: sendHeartbeats_def Let_def)
qed

theorem sendHeartbeats_mismatch_witness:
  "sort_key BuildbucketBuildId (replicate 200 jobRunning @ [jobRunning])
     = [] @ replicate 200 jobRunning @ [jobRunning]
   \<and> length ([] :: Job list) = 0 * LEASE_BATCH_SIZE
   \<and> replicate 200 jobRunning = take LEASE_BATCH_SIZE (replicate 200 jobRunning @ [jobRunning])
   \<and> replicate 200 jobRunning \<noteq> []
   \<and> ((now envShortFirst + LEASE_DURATION) div Second) * secondsToMicros = 3600000000
   \<and> bb_HeartbeatBatch envShortFirst (replicate 200 (42, 7, 3600000000)) = Inr []
   \<and> length ([] :: LegacyApiErrorMessage option list) \<noteq> length (replicate 200 jobRunning)
   \<and> sendHeartbeats envShortFirst (replicate 200 jobRunning @ [jobRunning]) stEmpty =
       (Some (Errorf ''got errors sending heartbeats: [Heartbeat result has incorrect number of jobs (0 vs 200)]''),
        replicate 200 jobRunning @ [jobRunning],
        stEmpty\<lparr>calls := [HeartbeatBatch (replicate 200 (42, 7, 3600000000)),
                            HeartbeatBatch [(42, 7, 3600000000)]]\<rparr>)"
proof -
  have a1: "sort_key BuildbucketBuildId (replicate 200 jobRunning @ [jobRunning])
            = [] @ replicate 200 jobRunning @ [jobRunning]"
    by (simp add: sort_key_id_if_sorted sorted_append)
  have a2: "length ([] :: Job list) = 0 * LEASE_BATCH_SIZE"
    by simp
  have a3: "replicate 200 jobRunning
            = take LEASE_BATCH_SIZE (replicate 200 jobRunning @ [jobRunning])"
    by (simp add: LEASE_BATCH_SIZE_def)
  have a4: "replicate 200 jobRunning \<noteq> []"
    by simp
  have a5: "(3600000000::int) = ((now envShortFirst + LEASE_DURATION) div Second) * secondsToMicros"
    by (simp add: envShortFirst_def env0_def LEASE_DURATION_def Second_def secondsToMicros_def)
  have a6: "replicate 200 (42, 7, 3600000000) =
            map (\<lambda>j. (BuildbucketBuildId j, BuildbucketLeaseKey j, 3600000000))
              (replicate 200 jobRunning)"
    by (simp add: jobRunning_def job0_def)
  have a7: "bb_HeartbeatBatch envShortFirst (replicate 200 (42, 7, 3600000000)) = Inr []"
    by (simp add: envShortFirst_def)
  have a8: "length ([] :: LegacyApiErrorMessage option list) \<noteq> length (replicate 200 jobRunning)"
    by simp
  have a9: "sendBatches envShortFirst 3600000000 [] stEmpty = ([], [], stEmpty)"
    by (rule sendBatches_Nil)
  have a10: "sendBatches envShortFirst 3600000000 [jobRunning]
               (rpc (HeartbeatBatch (replicate 200 (42, 7, 3600000000))) stEmpty)
             = ([jobRunning], [],
                stEmpty\<lparr>calls := [HeartbeatBatch (replicate 200 (42, 7, 3600000000)),
                                    HeartbeatBatch [(42, 7, 3600000000)]]\<rparr>)"
    by (subst sendBatches.simps)
       (simp add: sendBatches_Nil send_def Let_def LEASE_BATCH_SIZE_def envShortFirst_def
                  env0_def rpc_def stEmpty_def jobRunning_def job0_def)
  have a5': "((now envShortFirst + LEASE_DURATION) div Second) * secondsToMicros = 3600000000"
    using a5 by simp
  have main: "sendHeartbeats envShortFirst (replicate 200 jobRunning @ [jobRunning]) stEmpty =
       (Some (Errorf ''got errors sending heartbeats: [Heartbeat result has incorrect number of jobs (0 vs 200)]''),
        replicate 200 jobRunning @ [jobRunning],
        stEmpty\<lparr>calls := [HeartbeatBatch (replicate 200 (42, 7, 3600000000)),
                            HeartbeatBatch [(42, 7, 3600000000)]]\<rparr>)"
    using sendHeartbeats_mismatch [OF a1 a2 a3 a4 a5 a6 a7 a8 a9 a10]
    by (simp add: showErrors_def FormatInt_def FormatNat.simps)
  show ?thesis
    by (intro conjI a1 a2 a3 a4 a5' a7 a8 main)
qed

subsection \<open>A failed re-lease\<close>

lemma tryLeaseV1Build_one_error:
  "tryLeaseV1Build e b s = ((leaseKey, bbError, err), s') \<Longrightarrow> err = None \<or> bbError = None"
  by (auto simp: tryLeaseV1Build_def Let_def Wrapf_def split: sum.splits prod.splits)

lemma retryLeases_never_cancels:
  "retryLeases e idxs jobs acc s = (jobs', acc', s') \<Longrightarrow> acc' = acc"
proof (induction idxs arbitrary: jobs acc s)
  case Nil
  then show ?case by simp
next
  case (Cons i rest)
  obtain cancelJobs cancelReasons cancelBuilds where acc: "acc = (cancelJobs, cancelReasons, cancelBuilds)"
    by (cases acc) auto
  obtain leaseKey bbError err s1 where
    l: "tryLeaseV1Build e (BuildbucketBuildId (jobs ! i)) s = ((leaseKey, bbError, err), s1)"
    by (metis prod.collapse)
  from tryLeaseV1Build_one_error [OF l] have "\<not> (err \<noteq> None \<and> bbError \<noteq> None)"
    by auto
  with Cons.prems acc l
  have "retryLeases e rest (jobs[i := (jobs ! i)\<lparr>BuildbucketLeaseKey := leaseKey\<rparr>]) acc s1
        = (jobs', acc', s')"
    by (auto simp: Let_def)
  then show ?case
    by (rule Cons.IH)
qed

text \<open>
  Claim C2, at an input where the code departs from it. One job, lease key 7, whose
  heartbeat is rejected with LEASE_EXPIRED; the fresh lease fails, by a transport error
  in the first environment and by a rejection of Buildbucket in the second. In both the
  job is not canceled: it stays IN_PROGRESS, its lease key is overwritten with 0, no
  cancel call is issued and no error is returned.
\<close>

theorem sendHeartbeats_failed_release_not_canceled:
  "sendHeartbeats envExpired [jobRunning] st1 =
     (None, [jobRunning\<lparr>BuildbucketLeaseKey := 0\<rparr>],
      st1\<lparr>calls := [HeartbeatBatch [(42, 7, 3600000000)], Lease 42 1800000000]\<rparr>)
   \<and> sendHeartbeats envRefused [jobRunning] st1 =
     (None, [jobRunning\<lparr>BuildbucketLeaseKey := 0\<rparr>],
      st1\<lparr>calls := [HeartbeatBatch [(42, 7, 3600000000)], Lease 42 1800000000]\<rparr>)"
  by (simp add: sendHeartbeats_def sendBatches.simps [of _ _ "[x]" for x] sendBatches_Nil
        send_def tryLeaseV1Build_def Wrapf_def
        Let_def LEASE_BATCH_SIZE_def rpc_def LEASE_DURATION_def LEASE_DURATION_INITIAL_def
        Second_def secondsToMicros_def
        BUILDBUCKET_API_ERROR_REASON_COMPLETED_def BUILDBUCKET_API_ERROR_REASON_LEASE_EXPIRED_def
        envExpired_def envRefused_def env0_def leaseExpired_def st1_def jobRunning_def job0_def)

subsection \<open>A second start of a build\<close>

lemma jobStarted_one_error:
  "jobStarted e j s = ((bbToken, bbError, err), s') \<Longrightarrow> err \<noteq> None \<Longrightarrow> bbError = None"
  by (auto simp: jobStarted_def Let_def Wrap_def split: if_splits sum.splits prod.splits)

lemma startJob_already_started_panics:
  assumes "GetJobById e (JobId job) s = Inr (Some updatedJob)"
    and "Status updatedJob = JOB_STATUS_REQUESTED"
    and "startJobHelper e job s = (None, job1, s1)"
    and "jobStarted e (job1\<lparr>Status := JOB_STATUS_IN_PROGRESS\<rparr>) s1 = ((bbToken, bbError, err), s2)"
    and "isBuildAlreadyStartedError err"
  shows "fst (startJob e job s) = Panics"
proof -
  have "err \<noteq> None"
    using assms(5) by (auto simp: isBuildAlreadyStartedError_def split: option.splits)
  with assms(4) have "bbError = None"
    by (rule jobStarted_one_error)
  with assms show ?thesis
    by (simp add: startJob_def Let_def split: prod.splits)
qed

text \<open>
  Claim C3, at an input where the code departs from it. A REQUESTED job of the V2 protocol
  is started, and \<^verbatim>\<open>StartBuild\<close> answers with the transport error of a second
  start. \<^verbatim>\<open>startJob\<close> cancels the job locally, the database then holds it as
  CANCELED, and the goroutine panics: no error value is returned.
\<close>

theorem startJob_already_started_evaluated:
  "fst (startJob envAlreadyStarted jobV2Requested stV2Requested) = Panics
   \<and> Status (fst (snd (startJob envAlreadyStarted jobV2Requested stV2Requested)))
       = JOB_STATUS_CANCELED
   \<and> StatusDetails (fst (snd (startJob envAlreadyStarted jobV2Requested stV2Requested)))
       = ''StartBuild has already been called for this Job, but the Job was not correctly updated and cannot continue.''
   \<and> map Status (db (snd (snd (startJob envAlreadyStarted jobV2Requested stV2Requested))))
       = [JOB_STATUS_CANCELED]
   \<and> calls (snd (snd (startJob envAlreadyStarted jobV2Requested stV2Requested)))
       = [GetIssueProperties 12345, StartBuild 43 ''job-2'' []]"
proof -
  have c: "isBuildAlreadyStartedError (Some (Errorf ''rpc error: code = AlreadyExists desc = build 43 has recorded another StartBuild with request id job-2''))"
    by (simp add: isBuildAlreadyStartedError_def buildAlreadyStartedErr_def)
  have p: "ParseInt ''12345'' = Some 12345"
    by (simp add: ParseInt_def digitVal_def Let_def)
  show ?thesis
    by (simp add: startJob_def GetJobById_def startJobHelper_def getRevision_def p jobStarted_def
                  c Wrap_def isBBv2_def skipRepoState_def GetJobsByRepoState_def
                  localCancelJobs_def cancelFields_def PutJobsInChunks_def AddJobs_def upsert_def
                  rpc_def Let_def envAlreadyStarted_def env0_def stV2Requested_def
                  jobV2Requested_def job0_def)
qed

subsection \<open>The denylist of repo states\<close>

lemma skipRepoState_Revision [simp]:
  "skipRepoState (rs\<lparr>Revision := r\<rparr>) = skipRepoState rs"
  by (simp add: skipRepoState_def)

lemma startJobHelper_denylisted:
  assumes "skipRepoState (RepoState job)"
  shows "\<exists>err job1 s1. startJobHelper e job s = (Some err, job1, s1)
           \<and> db s1 = db s \<and> jCache s1 = jCache s
           \<and> (calls s1 = calls s \<or> (\<exists>n. calls s1 = calls s @ [GetIssueProperties n]))"
  using assms
  by (auto simp: startJobHelper_def getRevision_def rpc_def Let_def
           split: option.splits sum.splits prod.splits if_splits)

lemma insertStarted_calls:
  "insertStarted e j s = (r, j', s') \<Longrightarrow>
   calls s' = calls s \<and> Status j' = Status j \<and> (\<exists>err. r = Returns err)"
  by (auto simp: insertStarted_def PutJob_def AddJobs_def Let_def split: option.splits prod.splits)

text \<open>
  Claim C4, as amended. \<^verbatim>\<open>insertNewJobV1\<close> does not consult the denylist: a
  pending build with one Gerrit change of a known project, for which no job exists, is
  leased, and when the lease gives a non-zero key and the write succeeds, a REQUESTED job
  with that key is stored, whatever its issue and patchset. The denylist is applied when the
  job is started: \<^verbatim>\<open>startJob\<close> on a REQUESTED job whose repo state is on the denylist
  returns with the job marked MISHAP, having issued no remote call other than the lookup
  of the issue in Gerrit, so no start notification.
\<close>

theorem denylist_applies_at_start_not_at_intake:
  "(findJobForBuild e buildId s = Inr None
    \<and> bb2_GetBuild e buildId = Inr build
    \<and> BuildStatus build = Status_SCHEDULED
    \<and> Input build = Some [gerritChange]
    \<and> projectRepoMapping e (Project gerritChange) = Some repoUrl
    \<and> CreateTime build = Some requested
    \<and> BuildBuilder build = Some builder
    \<and> bb_Lease e buildId (((now e + LEASE_DURATION_INITIAL) div Second) * secondsToMicros)
        = Inr (Some leaseKey, None)
    \<and> leaseKey \<noteq> 0
    \<and> (\<forall>jobs. db_Put_err e jobs = None)
    \<longrightarrow> (\<exists>j s'. insertNewJobV1 e buildId s = (Returns None, s')
          \<and> calls s' = calls s @ [GetBuild buildId,
                Lease buildId (((now e + LEASE_DURATION_INITIAL) div Second) * secondsToMicros)]
          \<and> db s' = upsert j (db s)
          \<and> BuildbucketBuildId j = buildId
          \<and> BuildbucketLeaseKey j = leaseKey
          \<and> Status j = JOB_STATUS_REQUESTED
          \<and> Issue (RepoState j) = FormatInt (Change gerritChange)
          \<and> Patchset (RepoState j) = FormatInt (ChangePatchset gerritChange)))
   \<and> (GetJobById e (JobId job) t = Inr (Some updatedJob)
      \<and> Status updatedJob = JOB_STATUS_REQUESTED
      \<and> skipRepoState (RepoState job)
      \<longrightarrow> (\<exists>err job' t'. startJob e job t = (Returns err, job', t')
            \<and> Status job' = JOB_STATUS_MISHAP
            \<and> (calls t' = calls t \<or> (\<exists>n. calls t' = calls t @ [GetIssueProperties n]))))"
proof (intro conjI impI)
  assume a: "findJobForBuild e buildId s = Inr None
    \<and> bb2_GetBuild e buildId = Inr build
    \<and> BuildStatus build = Status_SCHEDULED
    \<and> Input build = Some [gerritChange]
    \<and> projectRepoMapping e (Project gerritChange) = Some repoUrl
    \<and> CreateTime build = Some requested
    \<and> BuildBuilder build = Some builder
    \<and> bb_Lease e buildId (((now e + LEASE_DURATION_INITIAL) div Second) * secondsToMicros)
        = Inr (Some leaseKey, None)
    \<and> leaseKey \<noteq> 0
    \<and> (\<forall>jobs. db_Put_err e jobs = None)"
  let ?rs = "\<lparr>Server = (if \<not> Contains (Host gerritChange) ''://''
                         then ''https://'' @ Host gerritChange else Host gerritChange),
               Issue = FormatInt (Change gerritChange),
               PatchRepo = repoUrl,
               Patchset = FormatInt (ChangePatchset gerritChange),
               Repo = repoUrl,
               Revision = []\<rparr>"
  let ?j = "(newJob e buildId (Builder builder) ?rs requested)
              \<lparr>BuildbucketLeaseKey := leaseKey, JobId := newJobId e buildId\<rparr>"
  have id: "JobId (newJob e buildId name rs t) = []"
           "BuildbucketBuildId (newJob e buildId name rs t) = buildId"
           "Status (newJob e buildId name rs t) = JOB_STATUS_REQUESTED"
           "RepoState (newJob e buildId name rs t) = rs" for name rs t
    by (simp_all add: newJob_def Let_def)
  have "insertNewJobV1 e buildId s =
          (Returns None,
           AddJobs [?j] ((rpc (Lease buildId
               (((now e + LEASE_DURATION_INITIAL) div Second) * secondsToMicros))
               (rpc (GetBuild buildId) s))\<lparr>db := upsert ?j (db s)\<rparr>))"
    using a
    by (simp add: insertNewJobV1_def leaseAndInsert_def leaseNewJob_def tryLeaseV1Build_def
                  PutJob_def id rpc_def Let_def)
  then show "\<exists>j s'. insertNewJobV1 e buildId s = (Returns None, s')
          \<and> calls s' = calls s @ [GetBuild buildId,
                Lease buildId (((now e + LEASE_DURATION_INITIAL) div Second) * secondsToMicros)]
          \<and> db s' = upsert j (db s)
          \<and> BuildbucketBuildId j = buildId
          \<and> BuildbucketLeaseKey j = leaseKey
          \<and> Status j = JOB_STATUS_REQUESTED
          \<and> Issue (RepoState j) = FormatInt (Change gerritChange)
          \<and> Patchset (RepoState j) = FormatInt (ChangePatchset gerritChange)"
    by (intro exI [of _ ?j]) (simp add: id AddJobs_def rpc_def)
next
  assume b: "GetJobById e (JobId job) t = Inr (Some updatedJob)
      \<and> Status updatedJob = JOB_STATUS_REQUESTED
      \<and> skipRepoState (RepoState job)"
  then obtain err job1 s1 where
    h: "startJobHelper e job t = (Some err, job1, s1)"
       "calls s1 = calls t \<or> (\<exists>n. calls s1 = calls t @ [GetIssueProperties n])"
    using startJobHelper_denylisted [of job e t] by blast
  let ?m = "job1\<lparr>Status := JOB_STATUS_MISHAP,
                  StatusDetails := Truncate (''Failed to start Job: '' @ Error (Unwrap err)) 1024\<rparr>"
  obtain r job' t' where i: "insertStarted e ?m s1 = (r, job', t')"
    by (metis prod.collapse)
  from insertStarted_calls [OF i] obtain rerr where
    c: "calls t' = calls s1" "Status job' = JOB_STATUS_MISHAP" "r = Returns rerr"
    by auto
  have "startJob e job t = (Returns rerr, job', t')"
    using b h(1) i c(3) by (simp add: startJob_def)
  with c h(2) show "\<exists>err job' t'. startJob e job t = (Returns err, job', t')
            \<and> Status job' = JOB_STATUS_MISHAP
            \<and> (calls t' = calls t \<or> (\<exists>n. calls t' = calls t @ [GetIssueProperties n]))"
    by auto
qed

theorem denylist_applies_at_start_not_at_intake_witness:
  "findJobForBuild envDenied 42 stEmpty = Inr None
   \<and> bb2_GetBuild envDenied 42 = Inr buildDenied
   \<and> BuildStatus buildDenied = Status_SCHEDULED
   \<and> Input buildDenied = Some [\<lparr>Host = ''skia-review.googlesource.com'', Project = ''skia'',
                                  Change = 527502, ChangePatchset = 1\<rparr>]
   \<and> projectRepoMapping envDenied ''skia'' = Some ''skia.git''
   \<and> CreateTime buildDenied = Some 6000123
   \<and> bb_Lease envDenied 42 1800000000 = Inr (Some 7, None)
   \<and> (\<forall>jobs. db_Put_err envDenied jobs = None)
   \<and> insertNewJobV1 envDenied 42 stEmpty = (Returns None, stDenied)
   \<and> GetJobById envDenied (JobId jobDenied) stDenied = Inr (Some jobDenied)
   \<and> Status jobDenied = JOB_STATUS_REQUESTED
   \<and> skipRepoState (RepoState jobDenied)
   \<and> fst (startJob envDenied jobDenied stDenied) = Returns None
   \<and> Status (fst (snd (startJob envDenied jobDenied stDenied))) = JOB_STATUS_MISHAP
   \<and> calls (snd (snd (startJob envDenied jobDenied stDenied)))
       = calls stDenied @ [GetIssueProperties 527502]"
proof -
  have x: "((now envDenied + LEASE_DURATION_INITIAL) div Second) * secondsToMicros = 1800000000"
    by (simp add: envDenied_def env0_def LEASE_DURATION_INITIAL_def Second_def
                  secondsToMicros_def)
  have a: "findJobForBuild envDenied 42 stEmpty = Inr None
    \<and> bb2_GetBuild envDenied 42 = Inr buildDenied
    \<and> BuildStatus buildDenied = Status_SCHEDULED
    \<and> Input buildDenied = Some [\<lparr>Host = ''skia-review.googlesource.com'', Project = ''skia'',
                                   Change = 527502, ChangePatchset = 1\<rparr>]
    \<and> projectRepoMapping envDenied
          (Project \<lparr>Host = ''skia-review.googlesource.com'', Project = ''skia'',
                     Change = 527502, ChangePatchset = 1\<rparr>) = Some ''skia.git''
    \<and> CreateTime buildDenied = Some 6000123
    \<and> BuildBuilder buildDenied = Some \<lparr>BuilderProject = ''skia'', Bucket = ''skia.primary'',
                                        Builder = ''Build-Debian10''\<rparr>
    \<and> bb_Lease envDenied 42
          (((now envDenied + LEASE_DURATION_INITIAL) div Second) * secondsToMicros)
        = Inr (Some 7, None)
    \<and> (7::int) \<noteq> 0
    \<and> (\<forall>jobs. db_Put_err envDenied jobs = None)"
    by (simp add: findJobForBuild_def SearchJobs_def envDenied_def env0_def buildDenied_def
                  build0_def stEmpty_def)
  have p: "ParseInt ''527502'' = Some 527502"
    by (simp add: ParseInt_def digitVal_def Let_def)
  have b: "GetJobById envDenied (JobId jobDenied) stDenied = Inr (Some jobDenied)
      \<and> Status jobDenied = JOB_STATUS_REQUESTED
      \<and> skipRepoState (RepoState jobDenied)"
    by (simp add: GetJobById_def skipRepoState_def envDenied_def env0_def stDenied_def
                  jobDenied_def jobIntake_def)
  have i: "insertNewJobV1 envDenied 42 stEmpty = (Returns None, stDenied)"
    by (simp add: insertNewJobV1_def findJobForBuild_def SearchJobs_def leaseAndInsert_def
                  leaseNewJob_def newJob_def tryLeaseV1Build_def PutJob_def AddJobs_def
                  upsert_def FixTimestamp_def rpc_def Let_def FormatInt_def FormatNat.simps
                  LEASE_DURATION_INITIAL_def Second_def secondsToMicros_def
                  envDenied_def env0_def buildDenied_def build0_def stEmpty_def stDenied_def
                  jobDenied_def jobIntake_def)
  have s: "fst (startJob envDenied jobDenied stDenied) = Returns None
   \<and> Status (fst (snd (startJob envDenied jobDenied stDenied))) = JOB_STATUS_MISHAP
   \<and> calls (snd (snd (startJob envDenied jobDenied stDenied)))
       = calls stDenied @ [GetIssueProperties 527502]"
    by (simp add: startJob_def GetJobById_def startJobHelper_def getRevision_def p
                  skipRepoState_def insertStarted_def PutJob_def AddJobs_def upsert_def
                  rpc_def Let_def envDenied_def env0_def stDenied_def jobDenied_def
                  jobIntake_def)
  from denylist_applies_at_start_not_at_intake
         [where e = envDenied and buildId = 42 and s = stEmpty and build = buildDenied
            and leaseKey = 7 and job = jobDenied and t = stDenied and updatedJob = jobDenied]
       a b i s x
  show ?thesis
    by (simp add: envDenied_def env0_def)
qed

text \<open>
  Claim C4 as it is stated fails. Build 42 carries issue 527502, patchset 1, which is on
  the denylist. \<^verbatim>\<open>insertNewJobV1\<close> attempts the lease and, the lease granted, stores
  a local job for the build.
\<close>

theorem insertNewJobV1_denylisted_counterexample:
  "skipRepoState (RepoState jobDenied)
   \<and> BuildbucketBuildId jobDenied = 42
   \<and> fst (insertNewJobV1 envDenied 42 stEmpty) = Returns None
   \<and> calls (snd (insertNewJobV1 envDenied 42 stEmpty)) = [GetBuild 42, Lease 42 1800000000]
   \<and> db (snd (insertNewJobV1 envDenied 42 stEmpty)) = [jobDenied]"
  by (simp add: insertNewJobV1_def findJobForBuild_def SearchJobs_def leaseAndInsert_def
                leaseNewJob_def newJob_def tryLeaseV1Build_def PutJob_def AddJobs_def
                upsert_def FixTimestamp_def rpc_def Let_def FormatInt_def FormatNat.simps
                LEASE_DURATION_INITIAL_def Second_def secondsToMicros_def skipRepoState_def
                envDenied_def env0_def buildDenied_def build0_def stEmpty_def
                jobDenied_def jobIntake_def)

subsection \<open>Cleanup of old builds\<close>

lemma calls_sendPubSub:
  "calls (snd (sendPubSub e j s)) =
     calls s @ [Publish (BuildbucketPubSubTopic j) (BuildbucketBuildId j)]"
  by (simp add: sendPubSub_def rpc_def)

lemma calls_cancelBuild:
  "calls (snd (cancelBuild e j reason s)) =
     calls s @ CancelBuild (BuildbucketBuildId j) reason
       # (if bb2_CancelBuild e (BuildbucketBuildId j) reason = None
          then [Publish (BuildbucketPubSubTopic j) (BuildbucketBuildId j)] else [])"
  by (simp add: cancelBuild_def sendPubSub_def rpc_def Let_def split: option.splits)

lemma calls_updateBuild:
  "calls (snd (updateBuild e j s)) =
     calls s @ UpdateBuild (BuildbucketBuildId j) (Status j) (StatusDetails j) (BuildbucketToken j)
       # (if bb2_UpdateBuild e (BuildbucketBuildId j) (BuildbucketToken j) = None
          then [Publish (BuildbucketPubSubTopic j) (BuildbucketBuildId j)] else [])"
  by (simp add: updateBuild_def sendPubSub_def rpc_def Let_def split: option.splits)

lemma cleanupBuilds_append:
  "cleanupBuilds e (pre @ rest) s =
     (case cleanupBuilds e pre s of
        (Returns None, s') \<Rightarrow> cleanupBuilds e rest s'
      | (r, s') \<Rightarrow> (r, s'))"
  by (induction pre arbitrary: s)
     (auto split: prod.splits outcome.splits option.splits)

text \<open>
  Claim C8, as amended. Let the search of \<^verbatim>\<open>buildbucketCleanup\<close> return a build of the
  configured bucket, and let the loop reach it, every build before it having been handled
  without an error return. The local job of the build is the one \<^verbatim>\<open>findJobForBuild\<close>
  finds, among the jobs created in the four days before now. When no local job is found for
  the build, nothing is done for it. When the job found is terminal and has no update token, the calls issued for the build start with
  \<^verbatim>\<open>CancelBuild\<close>, followed only by the Pub/Sub message of \<^verbatim>\<open>cancelBuild\<close>:
  there is no \<^verbatim>\<open>UpdateBuild\<close>. When the job is terminal and holds a token,
  \<^verbatim>\<open>UpdateBuild\<close> is called; if it succeeds, or fails saying the build has already
  ended, the build is done with, without a cancel; on any other failure
  \<^verbatim>\<open>CancelBuild\<close> follows.
\<close>

theorem buildbucketCleanup_terminal_job:
  assumes "bb2_Search e (buildbucketBucket e) (now e - CLEANUP_AGE_THRESHOLD)
             = Inr (pre @ build # post)"
    and "cleanupBuilds e pre (rpc (Search (buildbucketBucket e) (now e - CLEANUP_AGE_THRESHOLD)) s0)
           = (Returns None, s)"
    and "BuildBuilder build = Some builder"
    and "Bucket builder = buildbucketBucket e"
    and "cleanupBuild e build s = (r, s')"
  shows "buildbucketCleanup e s0 =
           (case r of Returns None \<Rightarrow> cleanupBuilds e post s' | _ \<Rightarrow> (r, s'))
    \<and> (findJobForBuild e (BuildId build) s = Inr None \<longrightarrow> r = Returns None \<and> s' = s)
    \<and> (findJobForBuild e (BuildId build) s = Inr (Some job) \<and> Done job
        \<and> BuildbucketToken job = [] \<longrightarrow>
          calls s' = calls s
            @ CancelBuild (BuildbucketBuildId job)
                ''We no longer have an update token for this build''
            # (if bb2_CancelBuild e (BuildbucketBuildId job)
                    ''We no longer have an update token for this build'' = None
               then [Publish (BuildbucketPubSubTopic job) (BuildbucketBuildId job)] else []))
    \<and> (findJobForBuild e (BuildId build) s = Inr (Some job) \<and> Done job
        \<and> BuildbucketToken job \<noteq> [] \<longrightarrow>
          (fst (updateBuild e job s) = None
           \<or> isBuildAlreadyFinishedError (fst (updateBuild e job s)) \<longrightarrow>
             r = Returns None
             \<and> calls s' = calls s
                 @ UpdateBuild (BuildbucketBuildId job) (Status job) (StatusDetails job)
                     (BuildbucketToken job)
                 # (if bb2_UpdateBuild e (BuildbucketBuildId job) (BuildbucketToken job) = None
                    then [Publish (BuildbucketPubSubTopic job) (BuildbucketBuildId job)]
                    else []))
          \<and> (fst (updateBuild e job s) \<noteq> None
              \<and> \<not> isBuildAlreadyFinishedError (fst (updateBuild e job s)) \<longrightarrow>
             calls s' = calls s
                 @ UpdateBuild (BuildbucketBuildId job) (Status job) (StatusDetails job)
                     (BuildbucketToken job)
                 # (if bb2_UpdateBuild e (BuildbucketBuildId job) (BuildbucketToken job) = None
                    then [Publish (BuildbucketPubSubTopic job) (BuildbucketBuildId job)]
                    else [])
                 @ CancelBuild (BuildbucketBuildId job) ''Failed to UpdateBuild''
                 # (if bb2_CancelBuild e (BuildbucketBuildId job) ''Failed to UpdateBuild'' = None
                    then [Publish (BuildbucketPubSubTopic job) (BuildbucketBuildId job)]
                    else [])))"
proof -
  have loop: "buildbucketCleanup e s0 =
           (case r of Returns None \<Rightarrow> cleanupBuilds e post s' | _ \<Rightarrow> (r, s'))"
    using assms(1,2,5)
    by (simp add: buildbucketCleanup_def Let_def cleanupBuilds_append
             split: outcome.splits option.splits)
  have none: "r = Returns None \<and> s' = s" if "findJobForBuild e (BuildId build) s = Inr None"
    using that assms(3,4,5) by (simp add: cleanupBuild_def)
  have notoken: "calls s' = calls s
            @ CancelBuild (BuildbucketBuildId job)
                ''We no longer have an update token for this build''
            # (if bb2_CancelBuild e (BuildbucketBuildId job)
                    ''We no longer have an update token for this build'' = None
               then [Publish (BuildbucketPubSubTopic job) (BuildbucketBuildId job)] else [])"
    if "findJobForBuild e (BuildId build) s = Inr (Some job)" "Done job"
       "BuildbucketToken job = []"
  proof -
    have "s' = snd (cancelBuild e job ''We no longer have an update token for this build'' s)"
      using that assms(3,4,5) by (auto simp: cleanupBuild_def split: prod.splits option.splits)
    then show ?thesis
      by (simp only: calls_cancelBuild)
  qed
  have updated: "r = Returns None
             \<and> calls s' = calls s
                 @ UpdateBuild (BuildbucketBuildId job) (Status job) (StatusDetails job)
                     (BuildbucketToken job)
                 # (if bb2_UpdateBuild e (BuildbucketBuildId job) (BuildbucketToken job) = None
                    then [Publish (BuildbucketPubSubTopic job) (BuildbucketBuildId job)]
                    else [])"
    if "findJobForBuild e (BuildId build) s = Inr (Some job)" "Done job"
       "BuildbucketToken job \<noteq> []"
       "fst (updateBuild e job s) = None \<or> isBuildAlreadyFinishedError (fst (updateBuild e job s))"
  proof -
    have "r = Returns None \<and> s' = snd (updateBuild e job s)"
      using that assms(3,4,5)
      by (auto simp: cleanupBuild_def isBuildAlreadyFinishedError_def
               split: prod.splits option.splits)
    then show ?thesis
      by (simp only: calls_updateBuild)
  qed
  have fallback: "calls s' = calls s
                 @ UpdateBuild (BuildbucketBuildId job) (Status job) (StatusDetails job)
                     (BuildbucketToken job)
                 # (if bb2_UpdateBuild e (BuildbucketBuildId job) (BuildbucketToken job) = None
                    then [Publish (BuildbucketPubSubTopic job) (BuildbucketBuildId job)]
                    else [])
                 @ CancelBuild (BuildbucketBuildId job) ''Failed to UpdateBuild''
                 # (if bb2_CancelBuild e (BuildbucketBuildId job) ''Failed to UpdateBuild'' = None
                    then [Publish (BuildbucketPubSubTopic job) (BuildbucketBuildId job)]
                    else [])"
    if "findJobForBuild e (BuildId build) s = Inr (Some job)" "Done job"
       "BuildbucketToken job \<noteq> []"
       "fst (updateBuild e job s) \<noteq> None"
       "\<not> isBuildAlreadyFinishedError (fst (updateBuild e job s))"
  proof -
    have "s' = snd (cancelBuild e job ''Failed to UpdateBuild'' (snd (updateBuild e job s)))"
      using that assms(3,4,5)
      by (auto simp: cleanupBuild_def split: prod.splits option.splits)
    then show ?thesis
      by (simp only: calls_cancelBuild calls_updateBuild) simp
  qed
  show ?thesis
    using loop none notoken updated fallback by blast
qed

theorem buildbucketCleanup_terminal_job_witness:
  "bb2_Search envCleanup (buildbucketBucket envCleanup) (now envCleanup - CLEANUP_AGE_THRESHOLD)
     = Inr [buildOrphan, buildStuck, buildStuckWithToken]
   \<and> findJobForBuild envCleanup (BuildId buildOrphan) stSearched = Inr None
   \<and> cleanupBuild envCleanup buildOrphan stSearched = (Returns None, stSearched)
   \<and> findJobForBuild envCleanup (BuildId buildStuck) stSearched = Inr (Some jobCanceledNoToken)
   \<and> Done jobCanceledNoToken
   \<and> BuildbucketToken jobCanceledNoToken = []
   \<and> cleanupBuild envCleanup buildStuck stSearched = (Returns None, stCanceled)
   \<and> findJobForBuild envCleanup (BuildId buildStuckWithToken) stCanceled
       = Inr (Some jobDoneWithToken)
   \<and> Done jobDoneWithToken
   \<and> BuildbucketToken jobDoneWithToken = ''tok1''
   \<and> isBuildAlreadyFinishedError (fst (updateBuild envCleanup jobDoneWithToken stCanceled))
   \<and> cleanupBuild envCleanup buildStuckWithToken stCanceled = (Returns None, stUpdated)
   \<and> buildbucketCleanup envCleanup stCleanup = (Returns None, stUpdated)"
proof -
  note defs = envCleanup_def envEnded_def env0_def stCleanup_def stSearched_def stCanceled_def
    stUpdated_def buildOrphan_def buildStuck_def buildStuckWithToken_def builderPrimary_def
    jobCanceledNoToken_def jobDoneWithToken_def jobDoneV2_def jobV2_def job0_def
  note funs = cleanupBuild_def findJobForBuild_def SearchJobs_def cancelBuild_def
    updateBuild_def sendPubSub_def Done_def isBuildAlreadyFinishedError_def
    buildAlreadyFinishedErr_def Wrap_def Wrapf_def rpc_def Let_def Second_def
    CLEANUP_AGE_THRESHOLD_def FormatInt_def FormatNat.simps
  have t: "now envCleanup - CLEANUP_AGE_THRESHOLD = 3600000000000"
    by (simp add: envCleanup_def CLEANUP_AGE_THRESHOLD_def Second_def)
  have b: "buildbucketBucket envCleanup = ''skia.primary''"
    by (simp add: envCleanup_def envEnded_def env0_def)
  have q: "rpc (Search (buildbucketBucket envCleanup) (now envCleanup - CLEANUP_AGE_THRESHOLD))
             stCleanup = stSearched"
    by (simp add: t b rpc_def stSearched_def stCleanup_def)
  have se: "bb2_Search envCleanup (buildbucketBucket envCleanup)
              (now envCleanup - CLEANUP_AGE_THRESHOLD)
            = Inr [buildOrphan, buildStuck, buildStuckWithToken]"
    by (simp add: envCleanup_def)
  have bb: "BuildBuilder buildOrphan = Some builderPrimary"
           "BuildBuilder buildStuck = Some builderPrimary"
           "BuildBuilder buildStuckWithToken = Some builderPrimary"
           "Bucket builderPrimary = buildbucketBucket envCleanup"
    by (simp_all add: b buildOrphan_def buildStuck_def buildStuckWithToken_def builderPrimary_def)
  have f1: "findJobForBuild envCleanup (BuildId buildOrphan) stSearched = Inr None"
    by (simp add: funs defs)
  have f2: "findJobForBuild envCleanup (BuildId buildStuck) stSearched
            = Inr (Some jobCanceledNoToken)"
    by (simp add: funs defs)
  have f3: "findJobForBuild envCleanup (BuildId buildStuckWithToken) stCanceled
            = Inr (Some jobDoneWithToken)"
    by (simp add: funs defs)
  have d: "Done jobCanceledNoToken \<and> BuildbucketToken jobCanceledNoToken = []
           \<and> Done jobDoneWithToken \<and> BuildbucketToken jobDoneWithToken = ''tok1''"
    by (simp add: funs defs)
  have a: "isBuildAlreadyFinishedError (fst (updateBuild envCleanup jobDoneWithToken stCanceled))"
    by (simp add: funs defs)
  have c1: "cleanupBuild envCleanup buildOrphan stSearched = (Returns None, stSearched)"
    by (simp add: funs defs)
  have c2: "cleanupBuild envCleanup buildStuck stSearched = (Returns None, stCanceled)"
    by (simp add: funs defs)
  have c3: "cleanupBuild envCleanup buildStuckWithToken stCanceled = (Returns None, stUpdated)"
    by (simp add: funs defs)
  have p1: "cleanupBuilds envCleanup []
              (rpc (Search (buildbucketBucket envCleanup)
                      (now envCleanup - CLEANUP_AGE_THRESHOLD)) stCleanup)
            = (Returns None, stSearched)"
    by (simp add: q)
  have p2: "cleanupBuilds envCleanup [buildOrphan]
              (rpc (Search (buildbucketBucket envCleanup)
                      (now envCleanup - CLEANUP_AGE_THRESHOLD)) stCleanup)
            = (Returns None, stSearched)"
    by (simp add: q c1)
  have p3: "cleanupBuilds envCleanup [buildOrphan, buildStuck]
              (rpc (Search (buildbucketBucket envCleanup)
                      (now envCleanup - CLEANUP_AGE_THRESHOLD)) stCleanup)
            = (Returns None, stCanceled)"
    by (simp add: q c1 c2)
  have s1: "bb2_Search envCleanup (buildbucketBucket envCleanup)
              (now envCleanup - CLEANUP_AGE_THRESHOLD)
            = Inr ([] @ buildOrphan # [buildStuck, buildStuckWithToken])"
    and s2: "bb2_Search envCleanup (buildbucketBucket envCleanup)
              (now envCleanup - CLEANUP_AGE_THRESHOLD)
            = Inr ([buildOrphan] @ buildStuck # [buildStuckWithToken])"
    and s3: "bb2_Search envCleanup (buildbucketBucket envCleanup)
              (now envCleanup - CLEANUP_AGE_THRESHOLD)
            = Inr ([buildOrphan, buildStuck] @ buildStuckWithToken # [])"
    by (simp_all add: se)
  from buildbucketCleanup_terminal_job [OF s1 p1 bb(1) bb(4) c1]
       buildbucketCleanup_terminal_job [OF s2 p2 bb(2) bb(4) c2, of jobCanceledNoToken]
       buildbucketCleanup_terminal_job [OF s3 p3 bb(3) bb(4) c3, of jobDoneWithToken]
       se f1 f2 f3 d a c1 c2 c3
  show ?thesis
    by simp
qed

text \<open>
  Claim C8 as it is stated, for every build found, fails in two ways.

  The loop returns at the first error. The search returns builds 43 and 45, of the
  configured bucket, each with a local job that is canceled and has no update token. The
  cancel of build 43 fails, \<^verbatim>\<open>buildbucketCleanup\<close> returns that error, and no call is
  made for build 45.

  The local job is looked up among the jobs created in the four days before now. Five
  days after its creation the canceled job without token of build 43 is still in the
  database, \<^verbatim>\<open>findJobForBuild\<close> does not find it, and the build is skipped without a
  cancel.
\<close>

theorem buildbucketCleanup_every_build_counterexample:
  "bb2_Search envCancelFails (buildbucketBucket envCancelFails)
       (now envCancelFails - CLEANUP_AGE_THRESHOLD)
     = Inr [buildStuck, buildStuckLater]
   \<and> BuildBuilder buildStuckLater = Some builderPrimary
   \<and> Bucket builderPrimary = buildbucketBucket envCancelFails
   \<and> findJobForBuild envCancelFails (BuildId buildStuckLater) stTwoCanceled
       = Inr (Some jobCanceledLater)
   \<and> Done jobCanceledLater
   \<and> BuildbucketToken jobCanceledLater = []
   \<and> buildbucketCleanup envCancelFails stTwoCanceled
       = (Returns (Some (Wrapped (Wrapped (Errorf ''deadline exceeded'')
                                    ''failed to cancel build 43 for job job-2'')
                           ''failed to cancel build 43 (job job-2)'')),
          stTwoCanceled\<lparr>calls :=
            [Search ''skia.primary'' 3600000000000,
             CancelBuild 43 ''We no longer have an update token for this build'']\<rparr>)
   \<and> bb2_Search envLate (buildbucketBucket envLate) (now envLate - CLEANUP_AGE_THRESHOLD)
       = Inr [buildStuck]
   \<and> BuildBuilder buildStuck = Some builderPrimary
   \<and> Bucket builderPrimary = buildbucketBucket envLate
   \<and> jobCanceledNoToken \<in> set (db stCleanup)
   \<and> BuildbucketBuildId jobCanceledNoToken = BuildId buildStuck
   \<and> Done jobCanceledNoToken
   \<and> BuildbucketToken jobCanceledNoToken = []
   \<and> Created jobCanceledNoToken = 2000
   \<and> now envLate - 4 * 24 * 3600 * Second = 86400000000000
   \<and> findJobForBuild envLate (BuildId buildStuck) stCleanup = Inr None
   \<and> buildbucketCleanup envLate stCleanup
       = (Returns None, stCleanup\<lparr>calls := [Search ''skia.primary'' 421200000000000]\<rparr>)"
proof -
  note defs = envCancelFails_def envLate_def envCleanup_def envEnded_def env0_def
    stCleanup_def stTwoCanceled_def buildOrphan_def buildStuck_def buildStuckLater_def
    builderPrimary_def jobCanceledNoToken_def jobCanceledLater_def jobDoneWithToken_def
    jobDoneV2_def jobV2_def job0_def
  note funs = buildbucketCleanup_def cleanupBuild_def findJobForBuild_def SearchJobs_def
    cancelBuild_def sendPubSub_def Done_def Wrap_def Wrapf_def rpc_def Let_def Second_def
    CLEANUP_AGE_THRESHOLD_def FormatInt_def FormatNat.simps
  have a1: "bb2_Search envCancelFails (buildbucketBucket envCancelFails)
              (now envCancelFails - CLEANUP_AGE_THRESHOLD)
            = Inr [buildStuck, buildStuckLater]"
    by (simp add: envCancelFails_def)
  have a2: "BuildBuilder buildStuckLater = Some builderPrimary"
    and a3: "Bucket builderPrimary = buildbucketBucket envCancelFails"
    and b2: "BuildBuilder buildStuck = Some builderPrimary"
    and b3: "Bucket builderPrimary = buildbucketBucket envLate"
    by (simp_all add: defs)
  have a4: "findJobForBuild envCancelFails (BuildId buildStuckLater) stTwoCanceled
            = Inr (Some jobCanceledLater)"
    by (simp add: funs defs)
  have a5: "Done jobCanceledLater" and a6: "BuildbucketToken jobCanceledLater = []"
    and b5: "Done jobCanceledNoToken" and b6: "BuildbucketToken jobCanceledNoToken = []"
    and b7: "Created jobCanceledNoToken = 2000"
    and b8: "BuildbucketBuildId jobCanceledNoToken = BuildId buildStuck"
    and b9: "jobCanceledNoToken \<in> set (db stCleanup)"
    by (simp_all add: Done_def defs)
  have a7: "buildbucketCleanup envCancelFails stTwoCanceled
       = (Returns (Some (Wrapped (Wrapped (Errorf ''deadline exceeded'')
                                    ''failed to cancel build 43 for job job-2'')
                           ''failed to cancel build 43 (job job-2)'')),
          stTwoCanceled\<lparr>calls :=
            [Search ''skia.primary'' 3600000000000,
             CancelBuild 43 ''We no longer have an update token for this build'']\<rparr>)"
    by (simp add: funs defs)
  have b1: "bb2_Search envLate (buildbucketBucket envLate) (now envLate - CLEANUP_AGE_THRESHOLD)
            = Inr [buildStuck]"
    by (simp add: envLate_def)
  have b10: "now envLate - 4 * 24 * 3600 * Second = 86400000000000"
    by (simp add: envLate_def Second_def)
  have b11: "findJobForBuild envLate (BuildId buildStuck) stCleanup = Inr None"
    by (simp add: funs defs)
  have b12: "buildbucketCleanup envLate stCleanup
       = (Returns None, stCleanup\<lparr>calls := [Search ''skia.primary'' 421200000000000]\<rparr>)"
    by (simp add: funs defs)
  show ?thesis
    by (intro conjI a1 a2 a3 a4 a5 a6 a7 b1 b2 b3 b9 b8 b5 b6 b7 b10 b11 b12)
qed

subsection \<open>The completion reconciler\<close>

lemma fst_sendPubSub: "fst (sendPubSub e j s) = fst (sendPubSub e j t)"
  by (simp add: sendPubSub_def)

lemma fst_updateBuild: "fst (updateBuild e j s) = fst (updateBuild e j t)"
  by (simp add: updateBuild_def sendPubSub_def Let_def split: option.splits)

lemma fst_cancelBuild: "fst (cancelBuild e j r s) = fst (cancelBuild e j r t)"
  by (simp add: cancelBuild_def sendPubSub_def Let_def split: option.splits)

lemma fst_buildSucceededV1: "fst (buildSucceededV1 e j s) = fst (buildSucceededV1 e j t)"
  by (simp add: buildSucceededV1_def Let_def split: option.splits sum.splits)

lemma fst_buildFailed: "fst (buildFailed e j s) = fst (buildFailed e j t)"
  by (simp add: buildFailed_def Let_def split: option.splits sum.splits)

lemma fst_jobFinished: "fst (jobFinished e j s) = fst (jobFinished e j t)"
  using fst_updateBuild [of e j s t] fst_cancelBuild [of e j _ s t]
    fst_buildSucceededV1 [of e j s t] fst_buildFailed [of e j s t]
  by (simp add: jobFinished_def Let_def Wrap_def case_prod_beta split: option.splits)

text \<open>What a function that only issues remote calls leaves as it was.\<close>

lemma stores_rpc [simp]: "jCache (rpc c s) = jCache s"
  by (simp add: rpc_def)

lemma stores_sendPubSub [simp]:
  "db (snd (sendPubSub e j s)) = db s" "jCache (snd (sendPubSub e j s)) = jCache s"
  by (simp_all add: sendPubSub_def)

lemma stores_updateBuild [simp]:
  "db (snd (updateBuild e j s)) = db s" "jCache (snd (updateBuild e j s)) = jCache s"
  by (simp_all add: updateBuild_def sendPubSub_def Let_def split: option.splits)

lemma stores_cancelBuild [simp]:
  "db (snd (cancelBuild e j r s)) = db s" "jCache (snd (cancelBuild e j r s)) = jCache s"
  by (simp_all add: cancelBuild_def sendPubSub_def Let_def split: option.splits)

lemma stores_buildSucceededV1 [simp]:
  "db (snd (buildSucceededV1 e j s)) = db s" "jCache (snd (buildSucceededV1 e j s)) = jCache s"
  by (simp_all add: buildSucceededV1_def Let_def split: option.splits sum.splits)

lemma stores_buildFailed [simp]:
  "db (snd (buildFailed e j s)) = db s" "jCache (snd (buildFailed e j s)) = jCache s"
  by (simp_all add: buildFailed_def Let_def split: option.splits sum.splits)

lemma stores_jobFinished:
  "db (snd (jobFinished e j s)) = db s" "jCache (snd (jobFinished e j s)) = jCache s"
  by (simp_all add: jobFinished_def Let_def case_prod_beta split: option.splits)

lemma stores_tryLeaseV1Build:
  "tryLeaseV1Build e b s = (r, s1) \<Longrightarrow> db s1 = db s \<and> jCache s1 = jCache s"
  by (auto simp: tryLeaseV1Build_def rpc_def Let_def split: sum.splits prod.splits)

lemma stores_remoteCancelV1Build:
  "remoteCancelV1Build e b m s = (r, s1) \<Longrightarrow> db s1 = db s \<and> jCache s1 = jCache s"
  by (auto simp: remoteCancelV1Build_def rpc_def Let_def split: sum.splits option.splits)

lemma stores_remoteCancelLoop:
  "remoteCancelLoop e ids s = (errs, s1) \<Longrightarrow> db s1 = db s \<and> jCache s1 = jCache s"
proof (induction ids arbitrary: s errs s1)
  case Nil
  then show ?case by simp
next
  case (Cons bid ids)
  obtain err s2 where c: "remoteCancelV1Build e bid ''failed to renew lease'' s = (err, s2)"
    by (metis prod.collapse)
  obtain errs3 s3 where l: "remoteCancelLoop e ids s2 = (errs3, s3)"
    by (metis prod.collapse)
  from Cons.prems c l have "s1 = s3"
    by simp
  with Cons.IH [OF l] stores_remoteCancelV1Build [OF c] show ?case
    by simp
qed

lemma stores_sendPubsubLoop:
  "sendPubsubLoop e jobs s = (errs, s1) \<Longrightarrow> db s1 = db s \<and> jCache s1 = jCache s"
proof (induction jobs arbitrary: s errs s1)
  case Nil
  then show ?case by simp
next
  case (Cons job jobs)
  obtain err s2 where c: "sendPubSub e job s = (err, s2)"
    by (metis prod.collapse)
  then have c': "db s2 = db s \<and> jCache s2 = jCache s"
    using stores_sendPubSub [of e job s] by simp
  obtain errs3 s3 where l: "sendPubsubLoop e jobs s2 = (errs3, s3)"
    by (metis prod.collapse)
  from Cons.prems c l have "s1 = s3"
    by simp
  with Cons.IH [OF l] c' show ?case
    by simp
qed

lemma stores_sendPubsubUpdates:
  "sendPubsubUpdates e jobs s = (err, s1) \<Longrightarrow> db s1 = db s \<and> jCache s1 = jCache s"
  by (auto simp: sendPubsubUpdates_def split: prod.splits dest!: stores_sendPubsubLoop)

text \<open>A write leaves the record of an id alone unless it writes a job of that id.\<close>

lemma find_fold_upsert_other:
  assumes "\<forall>x\<in>set xs. JobId x \<noteq> k"
  shows "find (\<lambda>x. JobId x = k) (fold upsert xs ys) = find (\<lambda>x. JobId x = k) ys"
proof -
  have "\<not> (\<exists>x. x \<in> set (rev xs) \<and> JobId x = k)"
    using assms by auto
  then have "find (\<lambda>x. JobId x = k) (rev xs) = None"
    unfolding find_None_iff by blast
  then show ?thesis
    by (simp add: find_fold_upsert)
qed

lemma PutJobsInChunks_other:
  assumes "PutJobsInChunks e xs s = (r, s1)" "\<forall>x\<in>set xs. JobId x \<noteq> k"
  shows "find (\<lambda>x. JobId x = k) (db s1) = find (\<lambda>x. JobId x = k) (db s)
         \<and> jCache s1 = jCache s"
proof -
  have "\<forall>x\<in>set (take n xs). JobId x \<noteq> k" for n
    using assms(2) by (auto dest: in_set_takeD)
  then show ?thesis
    using assms
    by (auto simp: PutJobsInChunks_def find_fold_upsert_other split: option.splits)
qed

lemma AddJobs_other:
  assumes "\<forall>x\<in>set xs. JobId x \<noteq> k"
  shows "find (\<lambda>x. JobId x = k) (jCache (AddJobs xs s)) = find (\<lambda>x. JobId x = k) (jCache s)
         \<and> db (AddJobs xs s) = db s"
  using assms by (simp add: AddJobs_def find_fold_upsert_other)

lemma localCancelJobs_other:
  assumes "localCancelJobs e js rs s = (err, js', s1)" "\<forall>x\<in>set js. JobId x \<noteq> k"
  shows "find (\<lambda>x. JobId x = k) (db s1) = find (\<lambda>x. JobId x = k) (db s)
         \<and> find (\<lambda>x. JobId x = k) (jCache s1) = find (\<lambda>x. JobId x = k) (jCache s)"
proof (cases "length js = length rs")
  case False
  with assms(1) show ?thesis
    by (simp add: localCancelJobs_def)
next
  case True
  let ?c = "map (\<lambda>(j, reason). cancelFields e j reason) (zip js rs)"
  have c: "\<forall>x\<in>set ?c. JobId x \<noteq> k"
    using assms(2) by (auto simp: cancelFields_def dest: set_zip_leftD)
  obtain r s2 where p: "PutJobsInChunks e ?c s = (r, s2)"
    by (metis prod.collapse)
  have "s1 = s2 \<or> s1 = AddJobs ?c s2"
    using assms(1) True p
    by (auto simp: localCancelJobs_def Let_def split: option.splits)
  with PutJobsInChunks_other [OF p c] AddJobs_other [OF c, of s2] show ?thesis
    by auto
qed

lemma retryLeases_frame:
  "retryLeases e idxs jobs acc s = (jobs1, acc1, s1) \<Longrightarrow>
   map JobId jobs1 = map JobId jobs \<and> acc1 = acc \<and> db s1 = db s \<and> jCache s1 = jCache s"
proof (induction idxs arbitrary: jobs acc s)
  case Nil
  then show ?case by simp
next
  case (Cons i rest)
  obtain cancelJobs cancelReasons cancelBuilds where
    acc: "acc = (cancelJobs, cancelReasons, cancelBuilds)"
    by (cases acc) auto
  obtain leaseKey bbError err s2 where
    l: "tryLeaseV1Build e (BuildbucketBuildId (jobs ! i)) s = ((leaseKey, bbError, err), s2)"
    by (metis prod.collapse)
  from tryLeaseV1Build_one_error [OF l] have "\<not> (err \<noteq> None \<and> bbError \<noteq> None)"
    by auto
  with Cons.prems acc l
  have "retryLeases e rest (jobs[i := (jobs ! i)\<lparr>BuildbucketLeaseKey := leaseKey\<rparr>]) acc s2
        = (jobs1, acc1, s1)"
    by (auto simp: Let_def)
  from Cons.IH [OF this] stores_tryLeaseV1Build [OF l]
  have "map JobId jobs1 = map JobId (jobs[i := (jobs ! i)\<lparr>BuildbucketLeaseKey := leaseKey\<rparr>])"
    and r: "acc1 = acc \<and> db s1 = db s \<and> jCache s1 = jCache s"
    by auto
  moreover have "map JobId (jobs[i := (jobs ! i)\<lparr>BuildbucketLeaseKey := leaseKey\<rparr>])
                 = map JobId jobs"
    by (cases "i < length jobs") (simp_all add: map_update list_update_same_conv list_update_beyond)
  ultimately show ?case
    by simp
qed

lemma scanResults_bound:
  "scanResults i results = (retry, cancel, reasons) \<Longrightarrow>
   \<forall>x\<in>set cancel. x < i + length results"
proof (induction results arbitrary: i retry cancel reasons)
  case Nil
  then show ?case by simp
next
  case (Cons result results)
  obtain retry2 cancel2 reasons2 where
    r: "scanResults (Suc i) results = (retry2, cancel2, reasons2)"
    by (metis prod.collapse)
  from Cons.IH [OF r] have b: "\<forall>x\<in>set cancel2. x < Suc i + length results" .
  have "set cancel \<subseteq> insert i (set cancel2)"
    using Cons.prems r by (auto split: option.splits if_splits)
  with b show ?case
    by auto
qed

lemma send_other:
  assumes "send e expiration jobs s = (jobs', errs, s1)" "\<forall>x\<in>set jobs. JobId x \<noteq> k"
  shows "find (\<lambda>x. JobId x = k) (db s1) = find (\<lambda>x. JobId x = k) (db s)
         \<and> find (\<lambda>x. JobId x = k) (jCache s1) = find (\<lambda>x. JobId x = k) (jCache s)"
proof -
  let ?hb = "map (\<lambda>j. (BuildbucketBuildId j, BuildbucketLeaseKey j, expiration)) jobs"
  let ?s0 = "rpc (HeartbeatBatch ?hb) s"
  show ?thesis
  proof (cases "bb_HeartbeatBatch e ?hb")
    case (Inl err)
    with assms(1) show ?thesis
      by (auto simp: send_def Let_def)
  next
    case (Inr results)
    show ?thesis
    proof (cases "length results = length jobs")
      case False
      with assms(1) Inr show ?thesis
        by (auto simp: send_def Let_def)
    next
      case True
      obtain retry cancel0 reasons0 where sc: "scanResults 0 results = (retry, cancel0, reasons0)"
        by (metis prod.collapse)
      obtain jobs1 acc1 s2 where
        rl: "retryLeases e retry jobs (cancel0, reasons0, []) ?s0 = (jobs1, acc1, s2)"
        using prod_cases3 by blast
      from retryLeases_frame [OF rl]
      have f1: "map JobId jobs1 = map JobId jobs" "acc1 = (cancel0, reasons0, [])"
        "db s2 = db s" "jCache s2 = jCache s"
        by simp_all
      have len1: "length jobs1 = length jobs"
        using arg_cong [OF f1(1), of length] by simp
      have bound: "\<forall>i\<in>set cancel0. i < length jobs1"
        using scanResults_bound [OF sc] True len1 by simp
      have set1: "JobId ` set jobs1 = JobId ` set jobs"
        using arg_cong [OF f1(1), of set] by simp
      have ids: "\<forall>x\<in>set jobs1. JobId x \<noteq> k"
      proof
        fix x assume "x \<in> set jobs1"
        then have "JobId x \<in> JobId ` set jobs"
          using set1 by blast
        with assms(2) show "JobId x \<noteq> k"
          by auto
      qed
      have sel: "\<forall>x\<in>set (map (\<lambda>i. jobs1 ! i) cancel0). JobId x \<noteq> k"
        using bound ids by auto
      show ?thesis
      proof (cases "cancel0 = []")
        case True
        have "remoteCancelLoop e [] s2 = ([], s2)"
          by simp
        then have "s1 = s2"
          using assms(1) Inr \<open>length results = length jobs\<close> sc rl f1(2) True
          by (simp add: send_def Let_def)
        with f1 show ?thesis by simp
      next
        case False
        obtain err canceled s3 where
          lc: "localCancelJobs e (map (\<lambda>i. jobs1 ! i) cancel0) reasons0 s2 = (err, canceled, s3)"
          by (metis prod.collapse)
        have "s1 = s3"
          using assms(1) Inr \<open>length results = length jobs\<close> sc rl f1(2) False lc
          by (simp add: send_def Let_def split: prod.splits)
        with localCancelJobs_other [OF lc sel] f1 show ?thesis
          by simp
      qed
    qed
  qed
qed

lemma sendBatches_unfold:
  "jobs \<noteq> [] \<Longrightarrow>
   sendBatches e expiration jobs s =
     (case send e expiration (take LEASE_BATCH_SIZE jobs) s of
        (batch', errs1, s1) \<Rightarrow>
          (case sendBatches e expiration (drop LEASE_BATCH_SIZE jobs) s1 of
             (rest', errs2, s2) \<Rightarrow> (batch' @ rest', errs1 @ errs2, s2)))"
  using sendBatches_step [of jobs "[]" e expiration s] by simp

lemma sendBatches_other:
  "sendBatches e expiration jobs s = (jobs', errs, s1) \<Longrightarrow> \<forall>x\<in>set jobs. JobId x \<noteq> k \<Longrightarrow>
   find (\<lambda>x. JobId x = k) (db s1) = find (\<lambda>x. JobId x = k) (db s)
   \<and> find (\<lambda>x. JobId x = k) (jCache s1) = find (\<lambda>x. JobId x = k) (jCache s)"
proof (induction "length jobs" arbitrary: jobs s jobs' errs s1 rule: less_induct)
  case less
  show ?case
  proof (cases "jobs = []")
    case True
    with less.prems(1) show ?thesis
      by (simp add: sendBatches_Nil)
  next
    case False
    obtain b' errs1 s2 where
      sd: "send e expiration (take LEASE_BATCH_SIZE jobs) s = (b', errs1, s2)"
      by (metis prod.collapse)
    obtain r' errs2 s3 where
      sb: "sendBatches e expiration (drop LEASE_BATCH_SIZE jobs) s2 = (r', errs2, s3)"
      by (metis prod.collapse)
    have e1: "s1 = s3"
      using less.prems(1) sd sb by (simp add: sendBatches_unfold [OF False])
    have t: "\<forall>x\<in>set (take LEASE_BATCH_SIZE jobs). JobId x \<noteq> k"
      using less.prems(2) by (auto dest: in_set_takeD)
    have d: "\<forall>x\<in>set (drop LEASE_BATCH_SIZE jobs). JobId x \<noteq> k"
      using less.prems(2) by (auto dest: in_set_dropD)
    have lt: "length (drop LEASE_BATCH_SIZE jobs) < length jobs"
      using False by (simp add: LEASE_BATCH_SIZE_def)
    from less.hyps [OF lt sb d] send_other [OF sd t] e1 show ?thesis
      by simp
  qed
qed

lemma sendHeartbeats_other:
  assumes "sendHeartbeats e jobs s = (err, jobs', s1)" "\<forall>x\<in>set jobs. JobId x \<noteq> k"
  shows "find (\<lambda>x. JobId x = k) (db s1) = find (\<lambda>x. JobId x = k) (db s)
         \<and> find (\<lambda>x. JobId x = k) (jCache s1) = find (\<lambda>x. JobId x = k) (jCache s)"
proof -
  let ?x = "((now e + LEASE_DURATION) div Second) * secondsToMicros"
  obtain js errs s2 where
    b: "sendBatches e ?x (sort_key BuildbucketBuildId jobs) s = (js, errs, s2)"
    by (metis prod.collapse)
  have "s1 = s2"
    using assms(1) b by (simp add: sendHeartbeats_def Let_def)
  moreover have "\<forall>x\<in>set (sort_key BuildbucketBuildId jobs). JobId x \<noteq> k"
    using assms(2) by simp
  ultimately show ?thesis
    using sendBatches_other [OF b] by simp
qed

lemma finishJobs_result:
  assumes "finishJobs e finished s = (errs, insertJobs, jobs', s')"
  shows "insertJobs = map (\<lambda>j. j\<lparr>BuildbucketLeaseKey := 0, BuildbucketToken := []\<rparr>)
                        (filter (\<lambda>j. fst (jobFinished e j t) = None) finished)
         \<and> db s' = db s \<and> jCache s' = jCache s"
  using assms
proof (induction finished arbitrary: s errs insertJobs jobs' s')
  case Nil
  then show ?case by simp
next
  case (Cons j finished)
  obtain r s1 where j: "jobFinished e j s = (r, s1)"
    by (cases "jobFinished e j s") auto
  then have r: "fst (jobFinished e j t) = r"
    using fst_jobFinished [of e j t s] by simp
  have s1: "db s1 = db s" "jCache s1 = jCache s"
    using stores_jobFinished [of e j s] j by simp_all
  obtain errs2 ins2 jobs2 s2 where f: "finishJobs e finished s1 = (errs2, ins2, jobs2, s2)"
    by (metis prod.collapse)
  from Cons.IH [OF f] Cons.prems j f r s1 show ?case
    by (cases r) (auto simp: Let_def)
qed

lemma find_distinct_mem:
  "distinct (map JobId xs) \<Longrightarrow> x \<in> set xs \<Longrightarrow> find (\<lambda>y. JobId y = JobId x) xs = Some x"
  by (induction xs) auto

lemma find_fold_upsert_mem:
  assumes "distinct (map JobId xs)" "x \<in> set xs"
  shows "find (\<lambda>y. JobId y = JobId x) (fold upsert xs ys) = Some x"
proof -
  have "distinct (map JobId (rev xs))"
    using assms(1) by (simp only: rev_map [symmetric] distinct_rev)
  moreover have "x \<in> set (rev xs)"
    using assms(2) by simp
  ultimately have "find (\<lambda>y. JobId y = JobId x) (rev xs) = Some x"
    by (rule find_distinct_mem)
  then show ?thesis
    by (simp add: find_fold_upsert)
qed

lemma reconcileFinished_find:
  assumes "reconcileFinished e finished s = (errs, jobs', s')"
    and "distinct (map JobId finished)"
    and "j \<in> set finished"
  shows "(fst (jobFinished e j t) = None \<longrightarrow>
           find (\<lambda>x. JobId x = JobId j) (jCache s')
             = Some (j\<lparr>BuildbucketLeaseKey := 0, BuildbucketToken := []\<rparr>)
           \<and> (db_Put_err e (map (\<lambda>x. x\<lparr>BuildbucketLeaseKey := 0, BuildbucketToken := []\<rparr>)
                             (filter (\<lambda>x. fst (jobFinished e x t) = None) finished)) = None
              \<longrightarrow> find (\<lambda>x. JobId x = JobId j) (db s')
                   = Some (j\<lparr>BuildbucketLeaseKey := 0, BuildbucketToken := []\<rparr>)))
         \<and> (fst (jobFinished e j t) \<noteq> None \<longrightarrow>
           find (\<lambda>x. JobId x = JobId j) (jCache s') = find (\<lambda>x. JobId x = JobId j) (jCache s)
           \<and> find (\<lambda>x. JobId x = JobId j) (db s') = find (\<lambda>x. JobId x = JobId j) (db s))"
proof -
  let ?ok = "\<lambda>x. fst (jobFinished e x t) = None"
  let ?clear = "\<lambda>x. x\<lparr>BuildbucketLeaseKey := 0, BuildbucketToken := []\<rparr>"
  let ?ins = "map ?clear (filter ?ok finished)"
  obtain errs0 ins jobs0 s3 where f: "finishJobs e finished s = (errs0, ins, jobs0, s3)"
    by (metis prod.collapse)
  from finishJobs_result [OF f, of t]
  have ins: "ins = ?ins" and s3: "db s3 = db s" "jCache s3 = jCache s"
    by auto
  obtain putErr s4 where p: "PutJobsInChunks e ?ins s3 = (putErr, s4)"
    by (metis prod.collapse)
  have s': "s' = AddJobs ?ins s4"
    using assms(1) f ins p by (simp add: reconcileFinished_def)
  have cache: "jCache s' = fold upsert ?ins (jCache s)"
    using p s3 by (auto simp: s' AddJobs_def PutJobsInChunks_def split: option.splits)
  have dbok: "db s' = fold upsert ?ins (db s)" if "db_Put_err e ?ins = None"
    using p s3 that by (auto simp: s' AddJobs_def PutJobsInChunks_def)
  have ids: "map JobId ?ins = map JobId (filter ?ok finished)"
    by (simp add: comp_def)
  have "distinct (map JobId (filter ?ok finished))"
    using assms(2) by (rule distinct_map_filter)
  then have dist: "distinct (map JobId ?ins)"
    by (simp only: ids)
  have hit: "find (\<lambda>x. JobId x = JobId j) (fold upsert ?ins ys) = Some (?clear j)"
    if "?ok j" for ys
  proof -
    have "?clear j \<in> set ?ins"
      using assms(3) that by auto
    from find_fold_upsert_mem [OF dist this, of ys] show ?thesis
      by simp
  qed
  have other: "\<forall>y\<in>set ?ins. JobId y \<noteq> JobId j" if nok: "\<not> ?ok j"
  proof
    fix y assume "y \<in> set ?ins"
    then obtain x where x: "x \<in> set finished" "?ok x" "y = ?clear x"
      by auto
    then have "x \<noteq> j"
      using nok by auto
    moreover have "inj_on JobId (set finished)"
      using assms(2) by (simp add: distinct_map)
    ultimately have "JobId x \<noteq> JobId j"
      using x(1) assms(3) by (auto dest: inj_onD)
    then show "JobId y \<noteq> JobId j"
      by (simp add: x(3))
  qed
  have miss: "find (\<lambda>x. JobId x = JobId j) (jCache s') = find (\<lambda>x. JobId x = JobId j) (jCache s)
           \<and> find (\<lambda>x. JobId x = JobId j) (db s') = find (\<lambda>x. JobId x = JobId j) (db s)"
    if nok: "\<not> ?ok j"
    using PutJobsInChunks_other [OF p other [OF nok]] AddJobs_other [OF other [OF nok], of s4] s3
    by (simp add: s')
  show ?thesis
    using hit cache dbok miss by auto
qed

text \<open>
  Claim C1, as amended. Let \<open>j\<close> be a terminal job among the active jobs of a pass of
  \<^verbatim>\<open>updateJobs\<close>, the cached jobs having distinct ids. \<^verbatim>\<open>jobFinished\<close> returns no
  error for \<open>j\<close> exactly when the terminal notification of the job's protocol returned
  none, or, for an update over the V2 API, when its error says that the build has already
  ended. In that case the pass leaves the job in the cache with lease key 0 and an empty
  token, and hands it to the write of the batch; when that write succeeds, the database
  holds it so. Otherwise the pass leaves the job in the cache as it was, and the record the
  database holds for its id is the one it held before.
\<close>

theorem updateJobs_clears_iff_notified:
  assumes "getActiveTryJobs e s = (Inr jobs, s0)"
    and "distinct (map JobId (GetAllCachedJobs s0))"
    and "j \<in> set jobs"
    and "Done j"
    and "updateJobs e s = (r, s')"
  shows "(fst (jobFinished e j s) = None \<longleftrightarrow>
         (if isBBv2 j then
            (if Status j = JOB_STATUS_CANCELED then
               fst (cancelBuild e j (if StatusDetails j = [] then ''Underlying job was canceled.''
                                     else StatusDetails j) s) = None
             else fst (updateBuild e j s) = None
                  \<or> isBuildAlreadyFinishedError (fst (updateBuild e j s)))
          else if Status j = JOB_STATUS_SUCCESS then fst (buildSucceededV1 e j s) = None
          else fst (buildFailed e j s) = None))
    \<and> (fst (jobFinished e j s) = None \<longrightarrow>
         find (\<lambda>x. JobId x = JobId j) (jCache s')
           = Some (j\<lparr>BuildbucketLeaseKey := 0, BuildbucketToken := []\<rparr>)
         \<and> (db_Put_err e (map (\<lambda>x. x\<lparr>BuildbucketLeaseKey := 0, BuildbucketToken := []\<rparr>)
                           (filter (\<lambda>x. fst (jobFinished e x s) = None) (filter Done jobs)))
             = None
            \<longrightarrow> find (\<lambda>x. JobId x = JobId j) (db s')
                 = Some (j\<lparr>BuildbucketLeaseKey := 0, BuildbucketToken := []\<rparr>)))
    \<and> (fst (jobFinished e j s) \<noteq> None \<longrightarrow>
         find (\<lambda>x. JobId x = JobId j) (jCache s') = Some j
         \<and> find (\<lambda>x. JobId x = JobId j) (db s') = find (\<lambda>x. JobId x = JobId j) (db s))"
proof -
  let ?P = "\<lambda>job. (BuildbucketLeaseKey job \<noteq> 0 \<or> BuildbucketToken job \<noteq> [])
                  \<and> Status job \<noteq> JOB_STATUS_REQUESTED"
  have g: "jobs = filter ?P (jCache s0)" "db s0 = db s"
    using assms(1)
    by (auto simp: getActiveTryJobs_def jCache_Update_def GetAllCachedJobs_def
             split: option.splits prod.splits)
  have dc: "distinct (map JobId (jCache s0))"
    using assms(2) by (simp add: GetAllCachedJobs_def)
  have dj: "distinct (map JobId jobs)"
    unfolding g(1) using dc by (rule distinct_map_filter)
  have jc: "j \<in> set (jCache s0)"
    using assms(3) g(1) by simp
  have c0: "find (\<lambda>x. JobId x = JobId j) (jCache s0) = Some j"
    using find_distinct_mem [OF dc jc] .
  let ?finished = "filter Done jobs"
  let ?v2 = "filter (\<lambda>j. \<not> Done j \<and> isBBv2 j) jobs"
  let ?v1 = "filter (\<lambda>j. \<not> Done j \<and> \<not> isBBv2 j) jobs"
  obtain hbErr hbJobs s1 where hb: "sendHeartbeats e ?v1 s0 = (hbErr, hbJobs, s1)"
    using prod_cases3 by blast
  obtain psErr s2 where ps: "sendPubsubUpdates e ?v2 s1 = (psErr, s2)"
    by (metis prod.collapse)
  obtain errs jobs' s3 where rf: "reconcileFinished e ?finished s2 = (errs, jobs', s3)"
    using prod_cases3 by blast
  have s': "s' = s3"
    using assms(1,5) hb ps rf by (simp add: updateJobs_def Let_def)
  have inj: "inj_on JobId (set jobs)"
    using dj by (simp add: distinct_map)
  have v1: "\<forall>x\<in>set ?v1. JobId x \<noteq> JobId j"
  proof
    fix x assume x: "x \<in> set ?v1"
    then have "x \<noteq> j" "x \<in> set jobs"
      using assms(4) by auto
    with inj assms(3) show "JobId x \<noteq> JobId j"
      by (auto dest: inj_onD)
  qed
  from sendHeartbeats_other [OF hb v1] stores_sendPubsubUpdates [OF ps] g(2) c0
  have s2: "find (\<lambda>x. JobId x = JobId j) (db s2) = find (\<lambda>x. JobId x = JobId j) (db s)"
    "find (\<lambda>x. JobId x = JobId j) (jCache s2) = Some j"
    by simp_all
  have df: "distinct (map JobId ?finished)"
    using dj by (rule distinct_map_filter)
  have jf: "j \<in> set ?finished"
    using assms(3,4) by simp
  have char: "fst (jobFinished e j s) = None \<longleftrightarrow>
         (if isBBv2 j then
            (if Status j = JOB_STATUS_CANCELED then
               fst (cancelBuild e j (if StatusDetails j = [] then ''Underlying job was canceled.''
                                     else StatusDetails j) s) = None
             else fst (updateBuild e j s) = None
                  \<or> isBuildAlreadyFinishedError (fst (updateBuild e j s)))
          else if Status j = JOB_STATUS_SUCCESS then fst (buildSucceededV1 e j s) = None
          else fst (buildFailed e j s) = None)"
    using assms(4)
    by (auto simp: jobFinished_def Let_def Wrap_def case_prod_beta isBuildAlreadyFinishedError_def
             split: option.splits prod.splits)
  from reconcileFinished_find [OF rf df jf, of s] s2 char show ?thesis
    by (simp add: s')
qed

theorem updateJobs_clears_iff_notified_witness:
  "getActiveTryJobs envEnded stDone = (Inr [jobDoneV1, jobDoneV2], stDone)
   \<and> distinct (map JobId (GetAllCachedJobs stDone))
   \<and> Done jobDoneV2
   \<and> Done jobDoneV1
   \<and> isBuildAlreadyFinishedError (fst (updateBuild envEnded jobDoneV2 stDone))
   \<and> fst (jobFinished envEnded jobDoneV2 stDone) = None
   \<and> find (\<lambda>x. JobId x = JobId jobDoneV2) (jCache (snd (updateJobs envEnded stDone)))
       = Some (jobDoneV2\<lparr>BuildbucketLeaseKey := 0, BuildbucketToken := []\<rparr>)
   \<and> find (\<lambda>x. JobId x = JobId jobDoneV2) (db (snd (updateJobs envEnded stDone)))
       = Some (jobDoneV2\<lparr>BuildbucketLeaseKey := 0, BuildbucketToken := []\<rparr>)
   \<and> fst (jobFinished envEnded jobDoneV1 stDone) = Some (Errorf ''connection reset'')
   \<and> find (\<lambda>x. JobId x = JobId jobDoneV1) (jCache (snd (updateJobs envEnded stDone)))
       = Some jobDoneV1
   \<and> find (\<lambda>x. JobId x = JobId jobDoneV1) (db (snd (updateJobs envEnded stDone)))
       = Some jobDoneV1"
proof -
  let ?u = "updateJobs envEnded stDone"
  have u: "?u = (fst ?u, snd ?u)"
    by simp
  have g: "getActiveTryJobs envEnded stDone = (Inr [jobDoneV1, jobDoneV2], stDone)"
    by (simp add: getActiveTryJobs_def jCache_Update_def GetAllCachedJobs_def envEnded_def
                  env0_def stDone_def jobDoneV1_def jobDoneV2_def jobV2_def job0_def)
  have d: "distinct (map JobId (GetAllCachedJobs stDone))"
    by (simp add: GetAllCachedJobs_def stDone_def jobDoneV1_def jobDoneV2_def jobV2_def job0_def)
  have m2: "jobDoneV2 \<in> set [jobDoneV1, jobDoneV2]" and m1: "jobDoneV1 \<in> set [jobDoneV1, jobDoneV2]"
    by simp_all
  have t2: "Done jobDoneV2" and t1: "Done jobDoneV1"
    by (simp_all add: Done_def jobDoneV1_def jobDoneV2_def jobV2_def job0_def)
  have a: "isBuildAlreadyFinishedError (fst (updateBuild envEnded jobDoneV2 stDone))"
    by (simp add: updateBuild_def isBuildAlreadyFinishedError_def buildAlreadyFinishedErr_def
                  Let_def FormatInt_def FormatNat.simps envEnded_def env0_def jobDoneV2_def
                  jobV2_def job0_def)
  have v: "isBBv2 jobDoneV2 \<and> Status jobDoneV2 \<noteq> JOB_STATUS_CANCELED"
    by (simp add: isBBv2_def jobDoneV2_def jobV2_def job0_def)
  have f2: "fst (jobFinished envEnded jobDoneV2 stDone) = None"
    using a t2 v
    by (auto simp: jobFinished_def case_prod_beta Let_def split: option.splits)
  have f1: "fst (jobFinished envEnded jobDoneV1 stDone) = Some (Errorf ''connection reset'')"
    using t1
    by (simp add: jobFinished_def isBBv2_def buildFailed_def Wrap_def Let_def envEnded_def
                  env0_def jobDoneV1_def job0_def)
  have p: "db_Put_err envEnded jobs = None" for jobs
    by (simp add: envEnded_def env0_def)
  have s: "find (\<lambda>x. JobId x = JobId jobDoneV1) (db stDone) = Some jobDoneV1"
    by (simp add: stDone_def)
  from updateJobs_clears_iff_notified [OF g d m2 t2 u]
       updateJobs_clears_iff_notified [OF g d m1 t1 u]
       f2 f1 p s
  have r: "find (\<lambda>x. JobId x = JobId jobDoneV2) (jCache (snd ?u))
             = Some (jobDoneV2\<lparr>BuildbucketLeaseKey := 0, BuildbucketToken := []\<rparr>)"
    "find (\<lambda>x. JobId x = JobId jobDoneV2) (db (snd ?u))
             = Some (jobDoneV2\<lparr>BuildbucketLeaseKey := 0, BuildbucketToken := []\<rparr>)"
    "find (\<lambda>x. JobId x = JobId jobDoneV1) (jCache (snd ?u)) = Some jobDoneV1"
    "find (\<lambda>x. JobId x = JobId jobDoneV1) (db (snd ?u)) = Some jobDoneV1"
    by simp_all
  show ?thesis
    by (intro conjI g d t2 t1 a f2 f1 r)
qed

text \<open>
  Claim C1 as it is stated fails when the write of the batch fails. The job holds token
  \<^verbatim>\<open>tok1\<close>, the update of its build is answered with "cannot update an ended build",
  which \<^verbatim>\<open>jobFinished\<close> takes for a success, and \<^verbatim>\<open>PutJobsInChunks\<close> fails before
  it has stored a job. After the pass the cache holds the job with its token emptied, and
  the database holds it with the token still.
\<close>

theorem updateJobs_write_fails_counterexample:
  "fst (jobFinished envPutFails jobDoneV2 stOnlyV2) = None
   \<and> BuildbucketToken jobDoneV2 = ''tok1''
   \<and> db (snd (updateJobs envPutFails stOnlyV2)) = [jobDoneV2]
   \<and> jCache (snd (updateJobs envPutFails stOnlyV2))
       = [jobDoneV2\<lparr>BuildbucketLeaseKey := 0, BuildbucketToken := []\<rparr>]"
proof -
  note defs = envPutFails_def envEnded_def env0_def stOnlyV2_def jobDoneV2_def jobV2_def job0_def
  have f: "fst (jobFinished envPutFails jobDoneV2 t) = None" for t
    by (simp add: jobFinished_def updateBuild_def Done_def isBBv2_def
                  isBuildAlreadyFinishedError_def buildAlreadyFinishedErr_def Let_def
                  FormatInt_def FormatNat.simps defs)
  have j: "jobFinished envPutFails jobDoneV2 t
           = (None, rpc (UpdateBuild 43 JOB_STATUS_SUCCESS [] ''tok1'') t)" for t
    by (simp add: jobFinished_def updateBuild_def Done_def isBBv2_def
                  isBuildAlreadyFinishedError_def buildAlreadyFinishedErr_def Let_def
                  FormatInt_def FormatNat.simps defs)
  have h: "sendHeartbeats envPutFails [] t = (None, [], t)" for t
    by (simp add: sendHeartbeats_def sendBatches_Nil Let_def)
  have g: "getActiveTryJobs envPutFails stOnlyV2
           = (Inr [jobDoneV2], stOnlyV2\<lparr>jCache := [jobDoneV2]\<rparr>)"
    by (simp add: getActiveTryJobs_def jCache_Update_def GetAllCachedJobs_def defs)
  have d: "Done jobDoneV2"
    by (simp add: Done_def defs)
  have u: "snd (updateJobs envPutFails stOnlyV2)
           = \<lparr>db = [jobDoneV2],
              jCache = [jobDoneV2\<lparr>BuildbucketLeaseKey := 0, BuildbucketToken := []\<rparr>],
              calls = [UpdateBuild 43 JOB_STATUS_SUCCESS [] ''tok1'']\<rparr>"
    using d
    by (simp add: updateJobs_def g h j sendPubsubUpdates_def reconcileFinished_def
                  PutJobsInChunks_def AddJobs_def upsert_def rpc_def Let_def)
       (simp add: defs)
  have t: "BuildbucketToken jobDoneV2 = ''tok1''"
    by (simp add: defs)
  show ?thesis
    by (simp add: f t u)
qed

end
